theory Spec2Isabelle
  imports Main
begin

section \<open>JavaScript values used by the services\<close>

text \<open>
  A JavaScript number is an IEEE 754 double. The numbers the services compute with are
  results of \<open>parseInt\<close>, of \<open>+ 1\<close> and of the configuration, so they are integers that
  a double represents, NaN, or an infinity. Comparisons with NaN are false and arithmetic
  on NaN gives NaN. Readings of the clock (milliseconds since the epoch) and the numeric
  settings of the configuration are integers below \<open>2 ^ 53\<close>, which doubles represent
  exactly; they are written as integers.
\<close>

datatype number = NaN | Fin int | PosInf | NegInf

definition truthy :: "string option \<Rightarrow> bool" where
  "truthy v = (case v of None \<Rightarrow> False | Some s \<Rightarrow> s \<noteq> [])"

text \<open>
  A string is the list of the bytes of its UTF-8 encoding; the strings of the services
  are well-formed (no unpaired surrogate), so that encoding and decoding lose nothing.
\<close>

definition is_digit :: "char \<Rightarrow> bool" where
  "is_digit c = (48 \<le> (of_char c :: nat) \<and> (of_char c :: nat) \<le> 57)"

definition digit_val :: "char \<Rightarrow> int" where
  "digit_val c = int (of_char c) - 48"

definition hex_val :: "char \<Rightarrow> nat option" where
  "hex_val c =
     (let n = (of_char c :: nat) in
      if 48 \<le> n \<and> n \<le> 57 then Some (n - 48)
      else if 97 \<le> n \<and> n \<le> 102 then Some (n - 87)
      else if 65 \<le> n \<and> n \<le> 70 then Some (n - 55)
      else None)"

definition is_hex :: "char \<Rightarrow> bool" where
  "is_hex c = (hex_val c \<noteq> None)"

text \<open>
  The white space and line terminators that \<open>parseInt\<close> skips, by the bytes of their
  encoding: U+0009 to U+000D and U+0020 (one byte); U+00A0 (two bytes); U+1680, U+2000
  to U+200A, U+2028, U+2029, U+202F, U+205F, U+3000 and U+FEFF (three bytes).
\<close>

definition ws1 :: "nat \<Rightarrow> bool" where
  "ws1 a = (a \<in> {9, 10, 11, 12, 13, 32})"

definition ws2 :: "nat \<Rightarrow> nat \<Rightarrow> bool" where
  "ws2 a b = (a = 194 \<and> b = 160)"

definition ws3 :: "nat \<Rightarrow> nat \<Rightarrow> nat \<Rightarrow> bool" where
  "ws3 a b c =
     (a = 225 \<and> b = 154 \<and> c = 128
      \<or> a = 226 \<and> b = 128 \<and> (128 \<le> c \<and> c \<le> 138 \<or> c = 168 \<or> c = 169 \<or> c = 175)
      \<or> a = 226 \<and> b = 129 \<and> c = 159
      \<or> a = 227 \<and> b = 128 \<and> c = 128
      \<or> a = 239 \<and> b = 187 \<and> c = 191)"

fun skip_space :: "string \<Rightarrow> string" where
  "skip_space (a # b # c # rest) =
     (if ws1 (of_char a) then skip_space (b # c # rest)
      else if ws2 (of_char a) (of_char b) then skip_space (c # rest)
      else if ws3 (of_char a) (of_char b) (of_char c) then skip_space rest
      else a # b # c # rest)"
| "skip_space [a, b] =
     (if ws1 (of_char a) then skip_space [b]
      else if ws2 (of_char a) (of_char b) then []
      else [a, b])"
| "skip_space [a] = (if ws1 (of_char a) then [] else [a])"
| "skip_space [] = []"

text \<open>
  The double nearest to an integer: the integer itself when it has at most 53
  significant bits; otherwise the bits below the 53rd are rounded away, a tie going to
  the even neighbour; from \<open>2 ^ 1024\<close> on the result is an infinity.
\<close>

fun bit_length :: "nat \<Rightarrow> nat" where
  "bit_length n = (if n = 0 then 0 else Suc (bit_length (n div 2)))"

declare bit_length.simps [simp del]

definition round_double :: "int \<Rightarrow> number" where
  "round_double v =
     (let a = nat \<bar>v\<bar>;
          k = bit_length a - 53;
          q = a div 2 ^ k;
          r = a mod 2 ^ k;
          q' = (if 2 ^ k < 2 * r then q + 1
                else if 2 * r = 2 ^ k \<and> odd q then q + 1
                else q);
          m = int (q' * 2 ^ k)
      in if 2 ^ 1024 \<le> m then (if v < 0 then NegInf else PosInf)
         else Fin (if v < 0 then - m else m))"

definition parse_digits :: "string \<Rightarrow> int option" where
  "parse_digits s =
     (let ds = takeWhile is_digit s in
      if ds = [] then None else Some (foldl (\<lambda>a c. a * 10 + digit_val c) 0 ds))"

definition parse_hex_digits :: "string \<Rightarrow> int option" where
  "parse_hex_digits s =
     (let ds = takeWhile is_hex s in
      if ds = [] then None
      else Some (foldl (\<lambda>a c. a * 16 + int (case hex_val c of None \<Rightarrow> 0 | Some d \<Rightarrow> d)) 0 ds))"

definition parse_unsigned :: "string \<Rightarrow> int option" where
  "parse_unsigned s =
     (case s of
        c # d # rest \<Rightarrow>
          if c = CHR ''0'' \<and> (d = CHR ''x'' \<or> d = CHR ''X'') then parse_hex_digits rest
          else parse_digits s
      | _ \<Rightarrow> parse_digits s)"

text \<open>
  \<open>parseInt(s)\<close> without a radix: leading white space is skipped, one sign is read, a
  \<open>0x\<close> prefix selects base 16, and the longest prefix of digits is the value, rounded
  to a double; with no digit the result is NaN.
\<close>

definition parseInt :: "string \<Rightarrow> number" where
  "parseInt s =
     (case skip_space s of
        [] \<Rightarrow> NaN
      | c # rest \<Rightarrow>
          if c = CHR ''-''
          then (case parse_unsigned rest of None \<Rightarrow> NaN | Some v \<Rightarrow> round_double (- v))
          else if c = CHR ''+''
          then (case parse_unsigned rest of None \<Rightarrow> NaN | Some v \<Rightarrow> round_double v)
          else (case parse_unsigned (c # rest) of None \<Rightarrow> NaN | Some v \<Rightarrow> round_double v))"

definition digit_char :: "nat \<Rightarrow> char" where
  "digit_char d = char_of (48 + d)"

fun dec :: "nat \<Rightarrow> string" where
  "dec n = (if n < 10 then [digit_char n] else dec (n div 10) @ [digit_char (n mod 10)])"

declare dec.simps [simp del]

text \<open>
  \<open>Number.prototype.toString\<close> on an integer-valued double. Below \<open>2 ^ 53\<close> the digits
  are those of the integer. From there on they are the shortest digits that read back as
  the same double (the nearest such number, the even one at a tie) followed by zeros, and
  with more than 21 digits the exponent form \<open>d.ddde+n\<close>.
\<close>

definition pick_digits :: "nat \<Rightarrow> nat \<Rightarrow> nat option" where
  "pick_digits a k =
     (let scale = 10 ^ (length (dec a) - k);
          lo = (a div scale) * scale;
          hi = lo + scale;
          lo_ok = (round_double (int lo) = Fin (int a));
          hi_ok = (round_double (int hi) = Fin (int a))
      in if lo_ok \<and> hi_ok
         then (if a - lo < hi - a then Some lo
               else if hi - a < a - lo then Some hi
               else if even (a div scale) then Some lo
               else Some hi)
         else if lo_ok then Some lo
         else if hi_ok then Some hi
         else None)"

definition shortest_decimal :: "nat \<Rightarrow> nat" where
  "shortest_decimal a =
     (case List.map_filter (pick_digits a) [1 ..< 18] of [] \<Rightarrow> a | c # _ \<Rightarrow> c)"

definition digits_text :: "nat \<Rightarrow> string" where
  "digits_text a =
     (if a < 2 ^ 53 then dec a
      else
        let ds = dec (shortest_decimal a); n = length ds
        in if n \<le> 21 then ds
           else
             (case rev (dropWhile (\<lambda>x. x = CHR ''0'') (rev ds)) of
                [] \<Rightarrow> ds
              | d # rest \<Rightarrow>
                  (if rest = [] then [d] else d # CHR ''.'' # rest) @ ''e+'' @ dec (n - 1)))"

definition num_toString :: "number \<Rightarrow> string" where
  "num_toString v =
     (case v of
        NaN \<Rightarrow> ''NaN''
      | PosInf \<Rightarrow> ''Infinity''
      | NegInf \<Rightarrow> ''-Infinity''
      | Fin n \<Rightarrow> if n < 0 then CHR ''-'' # digits_text (nat (- n)) else digits_text (nat n))"

text \<open>\<open>v + 1\<close> and \<open>v >= m\<close> on doubles.\<close>

definition num_succ :: "number \<Rightarrow> number" where
  "num_succ v = (case v of Fin n \<Rightarrow> round_double (n + 1) | _ \<Rightarrow> v)"

definition num_ge :: "number \<Rightarrow> int \<Rightarrow> bool" where
  "num_ge v m = (case v of NaN \<Rightarrow> False | Fin n \<Rightarrow> m \<le> n | PosInf \<Rightarrow> True | NegInf \<Rightarrow> False)"

section \<open>Email one-time codes: generation\<close>

text \<open>
  \<open>crypto.randomInt(min, max)\<close> of the Node runtime returns an integer \<open>n\<close> with
  \<open>min \<le> n < max\<close>: the lower bound is inclusive and the upper bound exclusive. The
  random draw is the explicit argument \<open>r\<close>; every residue is reached by some draw.
\<close>

definition randomInt :: "int \<Rightarrow> int \<Rightarrow> nat \<Rightarrow> int" where
  "randomInt lo hi r = lo + int r mod (hi - lo)"

text \<open>\<open>OtpService.generateOTP\<close>: \<open>randomInt(100000, 999999).toString()\<close>.\<close>

definition generateOTP :: "nat \<Rightarrow> string" where
  "generateOTP r = num_toString (Fin (randomInt 100000 999999 r))"

section \<open>Data model\<close>

datatype UserRole = OWNER | ADMIN | USER

datatype TwoFactorType = TOTP | EMAIL

text \<open>
  The exceptions the services throw, with their messages. \<open>CryptoError\<close> stands for
  an exception raised inside the Node crypto library (wrong key or nonce length, a
  hexadecimal input of odd length, failed tag check).
\<close>

datatype error =
    UnauthorizedException string
  | BadRequestException string
  | ConflictException string
  | Error string
  | CryptoError

record User =
  user_id :: string
  user_name :: string
  user_username :: string
  user_email :: string
  user_image :: "string option"
  user_role :: UserRole

record Account =
  account_id :: string
  account_userId :: string
  passwordHash :: string
  lastLoginAt :: "int option"

record TwoFactorAuth =
  tfa_userId :: string
  tfa_type :: TwoFactorType
  tfa_secret :: string
  tfa_enabled :: bool
  recoveryCodes :: "string list option"

record Session =
  session_id :: nat
  session_userId :: string
  session_token :: string
  session_expiresAt :: int

record EmailOTP =
  otp_id :: nat
  otp_userId :: string
  otpHash :: string
  otp_attempts :: int
  otp_expiresAt :: int
  otp_createdAt :: int

record LoginAttempt =
  la_identifier :: string
  la_ipAddress :: "string option"
  la_success :: bool

record AuditLog =
  al_userId :: string
  al_action :: string
  al_method :: "string option"
  al_success :: bool
  al_ipAddress :: "string option"

record Mail =
  mail_to :: string
  mail_subject :: string
  mail_template :: string
  mail_context :: "(string \<times> string) list"

text \<open>
  The relational tables, the cache and the outgoing mail, as one state. Times are
  milliseconds since the epoch. A cache entry is a value with the instant it expires at.
  The store generates the id of a new session or challenge row; \<open>next_id\<close> is the
  next id it will give, so that no id is given twice.
\<close>

record world =
  users :: "User list"
  accounts :: "Account list"
  twoFactorAuths :: "TwoFactorAuth list"
  sessions :: "Session list"
  emailOTPs :: "EmailOTP list"
  loginAttempts :: "LoginAttempt list"
  auditLogs :: "AuditLog list"
  redis :: "string \<rightharpoonup> string \<times> int"
  outbox :: "Mail list"
  next_id :: nat

record JwtPayload =
  jwt_sub :: string
  jwt_email :: string
  jwt_username :: string
  jwt_role :: UserRole

record Tokens =
  accessToken :: string
  refreshToken :: string

text \<open>
  The libraries and the runtime the services call, as parameters of the model: argon2
  (the salt of \<open>argon2.hash\<close> is an explicit argument), the JWT signer and verifier
  (the clock is an explicit argument), speakeasy's TOTP check with the window of the call
  sites, AES-256-GCM of the Node crypto library (\<open>None\<close> where the library throws),
  and the time zone of the process: \<open>localTZA t True\<close> is the offset of local time from
  UTC, in milliseconds, at the instant \<open>t\<close>, and \<open>localTZA t False\<close> the offset at the
  local time \<open>t\<close> (the abstract operation LocalTZA of the language).
\<close>

record lib =
  argon2_hash :: "string \<Rightarrow> string \<Rightarrow> string"
  argon2_verify :: "string \<Rightarrow> string \<Rightarrow> bool"
  jwt_sign :: "string \<Rightarrow> JwtPayload \<Rightarrow> string \<Rightarrow> int \<Rightarrow> string"
  jwt_verify :: "string \<Rightarrow> string \<Rightarrow> int \<Rightarrow> JwtPayload option"
  totp_verify :: "string \<Rightarrow> string \<Rightarrow> int \<Rightarrow> bool"
  gcm_encrypt :: "string \<Rightarrow> string \<Rightarrow> string \<Rightarrow> (string \<times> string) option"
  gcm_decrypt :: "string \<Rightarrow> string \<Rightarrow> string \<Rightarrow> string \<Rightarrow> string option"
  localTZA :: "int \<Rightarrow> bool \<Rightarrow> int"

text \<open>The configuration factory of \<open>env.validation.ts\<close>; numeric settings are integers.\<close>

record config =
  jwt_secret :: string
  jwt_refreshSecret :: string
  jwt_expiresIn :: string
  jwt_refreshExpiresIn :: string
  twoFactor_encryptionKey :: string
  twoFactor_otpExpiryMinutes :: int
  twoFactor_maxOTPAttempts :: int
  twoFactor_maxResendAttempts :: int
  twoFactor_lockoutMinutes :: int
  lockout_maxAttempts :: int
  lockout_lockoutMinutes :: int

section \<open>The cache adapter\<close>

text \<open>
  Modelled from the spec: \<open>RedisService\<close> (\<open>src/redis/redis.service.ts\<close> is not among
  the sources). The spec gives \<open>get(key) -> string|absent\<close>, \<open>set(key, value,
  ttlSeconds)\<close>, \<open>del(key)\<close> and \<open>ttl(key) -> secondsRemaining\<close>; an entry past its
  expiry is absent.
\<close>

definition redis_get :: "int \<Rightarrow> world \<Rightarrow> string \<Rightarrow> string option" where
  "redis_get now s k =
     (case redis s k of
        None \<Rightarrow> None
      | Some (v, e) \<Rightarrow> if now < e then Some v else None)"

definition redis_set :: "int \<Rightarrow> string \<Rightarrow> string \<Rightarrow> int \<Rightarrow> world \<Rightarrow> world" where
  "redis_set now k v ttlSeconds s = s\<lparr>redis := (redis s)(k \<mapsto> (v, now + ttlSeconds * 1000))\<rparr>"

definition redis_del :: "string \<Rightarrow> world \<Rightarrow> world" where
  "redis_del k s = s\<lparr>redis := (redis s)(k := None)\<rparr>"

definition redis_ttl :: "int \<Rightarrow> world \<Rightarrow> string \<Rightarrow> int" where
  "redis_ttl now s k =
     (case redis s k of
        None \<Rightarrow> - 2
      | Some (v, e) \<Rightarrow> if now < e then (e - now) div 1000 else - 2)"

section \<open>The email one-time-code service\<close>

definition sendOTPEmail :: "string \<Rightarrow> string \<Rightarrow> int \<Rightarrow> world \<Rightarrow> world" where
  "sendOTPEmail email otp expiryMinutes s =
     s\<lparr>outbox := outbox s @
        [\<lparr>mail_to = email, mail_subject = ''Your Verification Code'',
          mail_template = ''otp-code'',
          mail_context = [(''otp'', otp), (''expiryMinutes'', num_toString (Fin expiryMinutes))]\<rparr>]\<rparr>"

text \<open>
  \<open>OtpService.generateAndSendOTP\<close>. The random draw \<open>r\<close> and the salt of the hash are
  arguments. A cached counter \<open>c\<close> is read as \<open>c && parseInt(c) >= max\<close> and as
  \<open>c ? parseInt(c) : 0\<close>; the empty string is falsy.
\<close>

definition generateAndSendOTP ::
  "lib \<Rightarrow> config \<Rightarrow> int \<Rightarrow> nat \<Rightarrow> string \<Rightarrow> string \<Rightarrow> string \<Rightarrow> world \<Rightarrow> (error + unit) \<times> world" where
  "generateAndSendOTP L cfg now r salt userId userEmail s =
     (let resendKey = ''otp:resend:'' @ userId;
          resendCount = redis_get now s resendKey;
          maxResends = twoFactor_maxResendAttempts cfg
      in if (case resendCount of
                None \<Rightarrow> False
              | Some c \<Rightarrow> c \<noteq> [] \<and> num_ge (parseInt c) maxResends)
         then (Inl (BadRequestException ''Too many OTP requests. Please try again later.''), s)
         else
           let otp = generateOTP r;
               otpHash = argon2_hash L otp salt;
               expiryMinutes = twoFactor_otpExpiryMinutes cfg;
               expiresAt = now + expiryMinutes * 60 * 1000;
               s1 = s\<lparr>emailOTPs := filter (\<lambda>row. otp_userId row \<noteq> userId) (emailOTPs s)\<rparr>;
               s2 = s1\<lparr>emailOTPs := emailOTPs s1 @
                      [\<lparr>otp_id = next_id s1, otp_userId = userId,
                        otpHash = otpHash, otp_attempts = 0, otp_expiresAt = expiresAt,
                        otp_createdAt = now\<rparr>],
                    next_id := Suc (next_id s1)\<rparr>;
               s3 = sendOTPEmail userEmail otp expiryMinutes s2;
               lockoutMinutes = twoFactor_lockoutMinutes cfg;
               currentCount = (case resendCount of
                                 None \<Rightarrow> Fin 0
                               | Some c \<Rightarrow> if c \<noteq> [] then parseInt c else Fin 0)
           in (Inr (),
               redis_set now resendKey (num_toString (num_succ currentCount)) (lockoutMinutes * 60) s3))"

text \<open>
  \<open>findFirst\<close> with \<open>orderBy: createdAt desc\<close>: the row created last (the earlier row
  of the table among rows created at the same instant).
\<close>

fun latest_otp :: "EmailOTP list \<Rightarrow> EmailOTP option" where
  "latest_otp [] = None"
| "latest_otp (x # xs) =
     (case latest_otp xs of
        None \<Rightarrow> Some x
      | Some y \<Rightarrow> if otp_createdAt x < otp_createdAt y then Some y else Some x)"

definition findLiveOTP :: "int \<Rightarrow> string \<Rightarrow> world \<Rightarrow> EmailOTP option" where
  "findLiveOTP now userId s =
     latest_otp (filter (\<lambda>row. otp_userId row = userId \<and> now < otp_expiresAt row) (emailOTPs s))"

text \<open>\<open>OtpService.verifyOTP\<close>.\<close>

definition verifyOTP ::
  "lib \<Rightarrow> config \<Rightarrow> int \<Rightarrow> string \<Rightarrow> string \<Rightarrow> world \<Rightarrow> (error + bool) \<times> world" where
  "verifyOTP L cfg now userId otp s =
     (let attemptKey = ''otp:attempts:'' @ userId;
          attempts = redis_get now s attemptKey;
          maxAttempts = twoFactor_maxOTPAttempts cfg
      in if (case attempts of
                None \<Rightarrow> False
              | Some a \<Rightarrow> a \<noteq> [] \<and> num_ge (parseInt a) maxAttempts)
         then (Inl (UnauthorizedException
                 ''Too many verification attempts. Please request a new OTP.''), s)
         else
           case findLiveOTP now userId s of
             None \<Rightarrow> (Inl (BadRequestException ''OTP expired or not found''), s)
           | Some otpRecord \<Rightarrow>
               let s1 = s\<lparr>emailOTPs :=
                          map (\<lambda>row. if otp_id row = otp_id otpRecord
                                     then row\<lparr>otp_attempts := otp_attempts otpRecord + 1\<rparr>
                                     else row) (emailOTPs s)\<rparr>;
                   isValid = argon2_verify L (otpHash otpRecord) otp
               in if \<not> isValid
                  then
                    let lockoutMinutes = twoFactor_lockoutMinutes cfg;
                        currentAttempts = (case attempts of
                                             None \<Rightarrow> Fin 0
                                           | Some a \<Rightarrow> if a \<noteq> [] then parseInt a else Fin 0)
                    in (Inl (UnauthorizedException ''Invalid OTP''),
                        redis_set now attemptKey (num_toString (num_succ currentAttempts))
                          (lockoutMinutes * 60) s1)
                  else
                    let s2 = s1\<lparr>emailOTPs :=
                               filter (\<lambda>row. otp_id row \<noteq> otp_id otpRecord) (emailOTPs s1)\<rparr>;
                        s3 = redis_del attemptKey s2;
                        s4 = redis_del (''otp:resend:'' @ userId) s3
                    in (Inr True, s4))"

section \<open>The account lockout service\<close>

text \<open>\<open>AccountLockoutService.lockAccount\<close>; the locale format of the unlock time is not modelled.\<close>

definition lockAccount ::
  "int \<Rightarrow> string \<Rightarrow> int \<Rightarrow> string option \<Rightarrow> string option \<Rightarrow> world \<Rightarrow> world" where
  "lockAccount now identifier durationMinutes userEmail userName s =
     (let lockKey = ''lockout:locked:'' @ identifier;
          s1 = redis_set now lockKey ''locked'' (durationMinutes * 60) s
      in case (userEmail, userName) of
           (Some e, Some n) \<Rightarrow>
             if e \<noteq> [] \<and> n \<noteq> []
             then s1\<lparr>outbox := outbox s1 @
                    [\<lparr>mail_to = e, mail_subject = ''Account Temporarily Locked'',
                      mail_template = ''account-locked'',
                      mail_context =
                        [(''name'', n),
                         (''lockoutMinutes'', num_toString (Fin durationMinutes)),
                         (''unlockTime'', num_toString (Fin (now + durationMinutes * 60000)))]\<rparr>]\<rparr>
             else s1
         | _ \<Rightarrow> s1)"

text \<open>\<open>AccountLockoutService.recordFailedAttempt\<close>.\<close>

definition recordFailedAttempt ::
  "config \<Rightarrow> int \<Rightarrow> string \<Rightarrow> string option \<Rightarrow> world \<Rightarrow> world" where
  "recordFailedAttempt cfg now identifier ipAddress s =
     (let maxAttempts = lockout_maxAttempts cfg;
          lockoutMinutes = lockout_lockoutMinutes cfg;
          identifierKey = ''lockout:user:'' @ identifier;
          attempts = redis_get now s identifierKey;
          newAttempts = (case attempts of
                           None \<Rightarrow> Fin 1
                         | Some a \<Rightarrow> if a = [] then Fin 1 else num_succ (parseInt a));
          s1 = redis_set now identifierKey (num_toString newAttempts) (lockoutMinutes * 60) s;
          s2 = (case ipAddress of
                  None \<Rightarrow> s1
                | Some ip \<Rightarrow>
                    if ip = [] then s1
                    else
                      let ipKey = ''lockout:ip:'' @ ip;
                          ipAttempts = redis_get now s1 ipKey;
                          newIpAttempts =
                            (case ipAttempts of
                               None \<Rightarrow> Fin 1
                             | Some a \<Rightarrow> if a = [] then Fin 1 else num_succ (parseInt a))
                      in redis_set now ipKey (num_toString newIpAttempts) (lockoutMinutes * 60) s1)
      in if num_ge newAttempts maxAttempts
         then lockAccount now identifier lockoutMinutes None None s2
         else s2)"

text \<open>
  \<open>AccountLockoutService.checkLockout\<close>; \<open>Math.ceil(ttl / 60)\<close> on integers is
  \<open>- ((- ttl) div 60)\<close>.
\<close>

definition checkLockout :: "int \<Rightarrow> string \<Rightarrow> world \<Rightarrow> error + unit" where
  "checkLockout now identifier s =
     (let lockKey = ''lockout:locked:'' @ identifier;
          locked = redis_get now s lockKey
      in if truthy locked
         then
           let ttl = redis_ttl now s lockKey;
               minutesLeft = - ((- ttl) div 60)
           in Inl (Error (''Account is temporarily locked. Try again in '' @
                          num_toString (Fin minutesLeft) @ '' minutes.''))
         else Inr ())"

definition resetAttempts :: "string \<Rightarrow> string option \<Rightarrow> world \<Rightarrow> world" where
  "resetAttempts identifier ipAddress s =
     (let s1 = redis_del (''lockout:user:'' @ identifier) s
      in case ipAddress of
           None \<Rightarrow> s1
         | Some ip \<Rightarrow> if ip = [] then s1 else redis_del (''lockout:ip:'' @ ip) s1)"

definition unlockAccount :: "string \<Rightarrow> world \<Rightarrow> world" where
  "unlockAccount identifier s =
     redis_del (''lockout:user:'' @ identifier) (redis_del (''lockout:locked:'' @ identifier) s)"

section \<open>The secret codec (\<open>crypto.util.ts\<close>)\<close>

definition hex_digit :: "nat \<Rightarrow> char" where
  "hex_digit d = (if d < 10 then char_of (48 + d) else char_of (87 + d))"

text \<open>\<open>Buffer.toString('hex')\<close>: two lower-case hexadecimal digits for each byte.\<close>

definition to_hex :: "string \<Rightarrow> string" where
  "to_hex bs =
     concat (map (\<lambda>b. [hex_digit ((of_char b :: nat) div 16),
                        hex_digit ((of_char b :: nat) mod 16)]) bs)"

text \<open>
  \<open>Buffer.from(s, 'hex')\<close>: pairs of hexadecimal digits of either case are decoded
  until the first pair that is not one; what follows, also a last digit without a
  partner, is dropped.
\<close>

fun from_hex :: "string \<Rightarrow> string" where
  "from_hex (a # b # rest) =
     (case hex_val a of
        None \<Rightarrow> []
      | Some x \<Rightarrow>
          (case hex_val b of
             None \<Rightarrow> []
           | Some y \<Rightarrow> char_of (16 * x + y) # from_hex rest))"
| "from_hex [a] = []"
| "from_hex [] = []"

text \<open>\<open>String.prototype.split\<close> with a separator of one character.\<close>

fun split_on :: "char \<Rightarrow> string \<Rightarrow> string list" where
  "split_on c [] = [[]]"
| "split_on c (x # xs) =
     (if x = c then [] # split_on c xs
      else (case split_on c xs of
              [] \<Rightarrow> [[x]]
            | y # ys \<Rightarrow> (x # y) # ys))"

text \<open>Reading an array element that may be missing (\<open>undefined\<close> is \<open>None\<close>).\<close>

definition nth_opt :: "'a list \<Rightarrow> nat \<Rightarrow> 'a option" where
  "nth_opt xs i = (if i < length xs then Some (xs ! i) else None)"


text \<open>
  The \<open>length\<close> of a string counts UTF-16 code units: one for each encoded character,
  two for a character of four bytes.
\<close>

definition utf16_length :: "string \<Rightarrow> nat" where
  "utf16_length s =
     length (filter (\<lambda>c. (of_char c :: nat) < 128 \<or> 192 \<le> (of_char c :: nat)) s)
     + length (filter (\<lambda>c. 240 \<le> (of_char c :: nat)) s)"

text \<open>
  \<open>decrypt(encryptedText, encryptionKey)\<close>. \<open>decipher.update(encrypted, 'hex', 'utf8')\<close>
  throws on a string of odd length and decodes one of even length as \<open>Buffer.from\<close>
  does.
\<close>

definition decrypt :: "lib \<Rightarrow> string \<Rightarrow> string \<Rightarrow> error + string" where
  "decrypt L encryptedText encryptionKey =
     (let key = from_hex encryptionKey;
          parts = split_on CHR '':'' encryptedText;
          ivHex = nth_opt parts 0;
          authTagHex = nth_opt parts 1;
          encrypted = nth_opt parts 2
      in case (ivHex, authTagHex, encrypted) of
           (Some i, Some t, Some e) \<Rightarrow>
             if i = [] then Inl (Error ''Invalid encrypted text format'')
             else if t = [] then Inl (Error ''Invalid encrypted text format'')
             else if e = [] then Inl (Error ''Invalid encrypted text format'')
             else if odd (utf16_length e) then Inl CryptoError
             else (case gcm_decrypt L key (from_hex i) (from_hex t) (from_hex e) of
                     None \<Rightarrow> Inl CryptoError
                   | Some decrypted \<Rightarrow> Inr decrypted)
         | _ \<Rightarrow> Inl (Error ''Invalid encrypted text format''))"



section \<open>The two-factor service\<close>

text \<open>\<open>findUnique\<close> on the composite key (userId, type).\<close>

definition findTwoFactor :: "world \<Rightarrow> string \<Rightarrow> TwoFactorType \<Rightarrow> TwoFactorAuth option" where
  "findTwoFactor s userId ty =
     find (\<lambda>a. tfa_userId a = userId \<and> tfa_type a = ty) (twoFactorAuths s)"

text \<open>\<open>update\<close> on a unique key changes the one row that \<open>findUnique\<close> returns.\<close>

fun update_first :: "('a \<Rightarrow> bool) \<Rightarrow> ('a \<Rightarrow> 'a) \<Rightarrow> 'a list \<Rightarrow> 'a list" where
  "update_first P f [] = []"
| "update_first P f (x # xs) = (if P x then f x # xs else x # update_first P f xs)"

text \<open>\<open>TwoFactorService.verifyTOTP\<close>.\<close>

definition verifyTOTP :: "lib \<Rightarrow> config \<Rightarrow> int \<Rightarrow> string \<Rightarrow> string \<Rightarrow> world \<Rightarrow> error + bool" where
  "verifyTOTP L cfg now userId token s =
     (case findTwoFactor s userId TOTP of
        None \<Rightarrow> Inr False
      | Some totpAuth \<Rightarrow>
          if \<not> tfa_enabled totpAuth then Inr False
          else
            (case decrypt L (tfa_secret totpAuth) (twoFactor_encryptionKey cfg) of
               Inl e \<Rightarrow> Inl e
             | Inr secret \<Rightarrow> Inr (totp_verify L secret token now)))"

text \<open>
  \<open>TwoFactorService.verifyRecoveryCode\<close>. The loop returns at the first stored hash that
  verifies, after storing the list without the strings equal to that hash.
\<close>

definition verifyRecoveryCode :: "lib \<Rightarrow> string \<Rightarrow> string \<Rightarrow> world \<Rightarrow> bool \<times> world" where
  "verifyRecoveryCode L userId code s =
     (case findTwoFactor s userId TOTP of
        None \<Rightarrow> (False, s)
      | Some totpAuth \<Rightarrow>
          if \<not> tfa_enabled totpAuth then (False, s)
          else
            (case recoveryCodes totpAuth of
               None \<Rightarrow> (False, s)
             | Some codes \<Rightarrow>
                 (case find (\<lambda>hashedCode. argon2_verify L hashedCode code) codes of
                    None \<Rightarrow> (False, s)
                  | Some hashedCode \<Rightarrow>
                      let updatedCodes = filter (\<lambda>c. c \<noteq> hashedCode) codes
                      in (True,
                          s\<lparr>twoFactorAuths :=
                              update_first (\<lambda>a. tfa_userId a = userId \<and> tfa_type a = TOTP)
                                (\<lambda>a. a\<lparr>recoveryCodes := Some updatedCodes\<rparr>)
                                (twoFactorAuths s)\<rparr>))))"

section \<open>The authentication service\<close>

record LoginDto =
  dto_identifier :: string
  dto_password :: string
  twoFactorToken :: "string option"

record RegisterDto =
  reg_name :: string
  reg_username :: string
  reg_email :: string
  reg_password :: string
  reg_image :: "string option"

datatype login_result = LoginOk User Tokens | Requires2FA string

definition audit_log :: "AuditLog \<Rightarrow> world \<Rightarrow> world" where
  "audit_log entry s = s\<lparr>auditLogs := auditLogs s @ [entry]\<rparr>"

definition logLoginAttempt :: "string \<Rightarrow> string option \<Rightarrow> bool \<Rightarrow> world \<Rightarrow> world" where
  "logLoginAttempt identifier ipAddress success s =
     s\<lparr>loginAttempts := loginAttempts s @
        [\<lparr>la_identifier = identifier, la_ipAddress = ipAddress, la_success = success\<rparr>]\<rparr>"

definition generateTokens :: "lib \<Rightarrow> config \<Rightarrow> int \<Rightarrow> User \<Rightarrow> Tokens" where
  "generateTokens L cfg now user =
     (let payload = \<lparr>jwt_sub = user_id user, jwt_email = user_email user,
                     jwt_username = user_username user, jwt_role = user_role user\<rparr>
      in \<lparr>accessToken = jwt_sign L (jwt_secret cfg) payload (jwt_expiresIn cfg) now,
          refreshToken = jwt_sign L (jwt_refreshSecret cfg) payload (jwt_refreshExpiresIn cfg) now\<rparr>)"

text \<open>
  \<open>AuthService.createSession\<close>. \<open>new Date()\<close> is the instant of the call.
  \<open>setDate(getDate() + 7)\<close> works on the local time of the process: the instant is
  taken to local time, the day number grows by seven with the time within the day kept,
  which adds \<open>7 * 86400000\<close> milliseconds to the local time, and the result is taken
  back to UTC with the offset in force at that local time.
\<close>

definition createSession :: "lib \<Rightarrow> config \<Rightarrow> int \<Rightarrow> string \<Rightarrow> string \<Rightarrow> world \<Rightarrow> world" where
  "createSession L cfg now userId token s =
     (let expiresIn = jwt_refreshExpiresIn cfg;
          localTime = now + localTZA L now True;
          newDate = localTime + 7 * 86400000;
          expiresAt = newDate - localTZA L newDate False
      in s\<lparr>sessions := sessions s @
           [\<lparr>session_id = next_id s, session_userId = userId,
             session_token = token, session_expiresAt = expiresAt\<rparr>],
          next_id := Suc (next_id s)\<rparr>)"

text \<open>\<open>AuthService.register\<close>; the generated ids and the salt are arguments.\<close>

definition register ::
  "lib \<Rightarrow> config \<Rightarrow> int \<Rightarrow> string \<Rightarrow> string \<Rightarrow> string \<Rightarrow> RegisterDto \<Rightarrow> world
     \<Rightarrow> (error + User \<times> Tokens) \<times> world" where
  "register L cfg now newUserId newAccountId salt dto s =
     (case find (\<lambda>u. user_email u = reg_email dto \<or> user_username u = reg_username dto) (users s) of
        Some existingUser \<Rightarrow>
          if user_email existingUser = reg_email dto
          then (Inl (ConflictException ''Email already exists''), s)
          else (Inl (ConflictException ''Username already exists''), s)
      | None \<Rightarrow>
          let hash = argon2_hash L (reg_password dto) salt;
              user = \<lparr>user_id = newUserId, user_name = reg_name dto,
                      user_username = reg_username dto, user_email = reg_email dto,
                      user_image = reg_image dto, user_role = USER\<rparr>;
              s1 = s\<lparr>users := users s @ [user],
                     accounts := accounts s @
                       [\<lparr>account_id = newAccountId, account_userId = newUserId,
                         passwordHash = hash, lastLoginAt = None\<rparr>]\<rparr>;
              tokens = generateTokens L cfg now user;
              s2 = createSession L cfg now (user_id user) (refreshToken tokens) s1
          in (Inr (user, tokens), s2))"

text \<open>
  Lines 145 to 198 of \<open>AuthService.login\<close>: the verification of a submitted second-factor
  token, with its audit records.
\<close>

definition method_name :: "TwoFactorAuth option \<Rightarrow> string" where
  "method_name totpAuth = (case totpAuth of Some _ \<Rightarrow> ''google'' | None \<Rightarrow> ''email'')"

definition login_verify2FA ::
  "lib \<Rightarrow> config \<Rightarrow> int \<Rightarrow> User \<Rightarrow> TwoFactorAuth option \<Rightarrow> TwoFactorAuth option \<Rightarrow> string
     \<Rightarrow> string option \<Rightarrow> world \<Rightarrow> (error + unit) \<times> world" where
  "login_verify2FA L cfg now user totpAuth emailAuth token ipAddress s =
     (let r =
        (case totpAuth of
           Some _ \<Rightarrow>
             (case verifyTOTP L cfg now (user_id user) token s of
                Inl e \<Rightarrow> (Inl e, s)
              | Inr v \<Rightarrow>
                  if v then (Inr True, s)
                  else
                    (case verifyRecoveryCode L (user_id user) token s of
                       (v2, s1) \<Rightarrow>
                         if v2
                         then (Inr True,
                               audit_log \<lparr>al_userId = user_id user,
                                          al_action = ''2fa_recovery_code_used'',
                                          al_method = Some ''recovery'', al_success = True,
                                          al_ipAddress = ipAddress\<rparr> s1)
                         else (Inr False, s1)))
         | None \<Rightarrow>
             (case emailAuth of
                Some _ \<Rightarrow> verifyOTP L cfg now (user_id user) token s
              | None \<Rightarrow> (Inr False, s)))
      in case r of
           (Inl e, s1) \<Rightarrow> (Inl e, s1)
         | (Inr verified, s1) \<Rightarrow>
             if \<not> verified
             then (Inl (UnauthorizedException ''Invalid two-factor code''),
                   audit_log \<lparr>al_userId = user_id user,
                              al_action = ''2fa_verification_failed'',
                              al_method = Some (method_name totpAuth), al_success = False,
                              al_ipAddress = ipAddress\<rparr> s1)
             else (Inr (),
                   audit_log \<lparr>al_userId = user_id user, al_action = ''2fa_verified'',
                              al_method = Some (method_name totpAuth), al_success = True,
                              al_ipAddress = ipAddress\<rparr> s1))"

text \<open>Lines 200 to 221 of \<open>AuthService.login\<close>: last login, attempt record, tokens, session.\<close>

definition login_issue ::
  "lib \<Rightarrow> config \<Rightarrow> int \<Rightarrow> LoginDto \<Rightarrow> string option \<Rightarrow> User \<Rightarrow> Account \<Rightarrow> world
     \<Rightarrow> (error + login_result) \<times> world" where
  "login_issue L cfg now dto ipAddress user account s =
     (let s1 = s\<lparr>accounts :=
                  update_first (\<lambda>a. account_id a = account_id account)
                    (\<lambda>a. a\<lparr>lastLoginAt := Some now\<rparr>) (accounts s)\<rparr>;
          s2 = logLoginAttempt (dto_identifier dto) ipAddress True s1;
          tokens = generateTokens L cfg now user;
          s3 = createSession L cfg now (user_id user) (refreshToken tokens) s2
      in (Inr (LoginOk user tokens), s3))"

text \<open>
  The queries of \<open>AuthService.login\<close>: the user whose email or username is the
  identifier (also \<open>AuthService.findUserByIdentifier\<close>), the included account, and
  \<open>user.twoFactorAuths.find((auth) => auth.type === ty && auth.enabled)\<close> on the
  included factors.
\<close>

definition findUserByIdentifier :: "world \<Rightarrow> string \<Rightarrow> User option" where
  "findUserByIdentifier s identifier =
     find (\<lambda>u. user_email u = identifier \<or> user_username u = identifier) (users s)"

definition findAccount :: "world \<Rightarrow> string \<Rightarrow> Account option" where
  "findAccount s userId = find (\<lambda>a. account_userId a = userId) (accounts s)"

definition enabledFactor :: "world \<Rightarrow> string \<Rightarrow> TwoFactorType \<Rightarrow> TwoFactorAuth option" where
  "enabledFactor s userId ty =
     find (\<lambda>a. tfa_type a = ty \<and> tfa_enabled a)
       (filter (\<lambda>a. tfa_userId a = userId) (twoFactorAuths s))"

text \<open>
  \<open>AuthService.login\<close>. The draw \<open>r\<close> and the salt are those of the email challenge it
  may issue.
\<close>

definition login ::
  "lib \<Rightarrow> config \<Rightarrow> int \<Rightarrow> nat \<Rightarrow> string \<Rightarrow> LoginDto \<Rightarrow> string option \<Rightarrow> world
     \<Rightarrow> (error + login_result) \<times> world" where
  "login L cfg now r salt dto ipAddress s =
     (case findUserByIdentifier s (dto_identifier dto) of
        None \<Rightarrow>
          (Inl (UnauthorizedException ''Invalid credentials''),
           logLoginAttempt (dto_identifier dto) ipAddress False s)
      | Some user \<Rightarrow>
          (case findAccount s (user_id user) of
             None \<Rightarrow>
               (Inl (UnauthorizedException ''Invalid credentials''),
                logLoginAttempt (dto_identifier dto) ipAddress False s)
           | Some account \<Rightarrow>
               if \<not> argon2_verify L (passwordHash account) (dto_password dto)
               then (Inl (UnauthorizedException ''Invalid credentials''),
                     logLoginAttempt (dto_identifier dto) ipAddress False s)
               else
                 let totpAuth = enabledFactor s (user_id user) TOTP;
                     emailAuth = enabledFactor s (user_id user) EMAIL;
                     has2FA = \<not> (totpAuth = None \<and> emailAuth = None)
                 in if has2FA \<and> \<not> truthy (twoFactorToken dto)
                    then
                      (case emailAuth of
                         Some _ \<Rightarrow>
                           (case generateAndSendOTP L cfg now r salt (user_id user)
                                   (user_email user) s of
                              (Inl e, s1) \<Rightarrow> (Inl e, s1)
                            | (Inr _, s1) \<Rightarrow> (Inr (Requires2FA ''email''), s1))
                       | None \<Rightarrow> (Inr (Requires2FA ''google''), s))
                    else
                      (case twoFactorToken dto of
                         Some token \<Rightarrow>
                           if token \<noteq> [] \<and> has2FA
                           then
                             (case login_verify2FA L cfg now user totpAuth emailAuth token
                                     ipAddress s of
                                (Inl e, s1) \<Rightarrow> (Inl e, s1)
                              | (Inr _, s1) \<Rightarrow> login_issue L cfg now dto ipAddress user account s1)
                           else login_issue L cfg now dto ipAddress user account s
                       | None \<Rightarrow> login_issue L cfg now dto ipAddress user account s)))"

text \<open>The body of the \<open>try\<close> block of \<open>AuthService.refreshTokens\<close>.\<close>

definition refreshTokens_try ::
  "lib \<Rightarrow> config \<Rightarrow> int \<Rightarrow> string \<Rightarrow> world \<Rightarrow> (error + Tokens) \<times> world" where
  "refreshTokens_try L cfg now token s =
     (case jwt_verify L token (jwt_refreshSecret cfg) now of
        None \<Rightarrow> (Inl (Error ''jwt verification failed''), s)
      | Some payload \<Rightarrow>
          (case find (\<lambda>row. session_token row = token \<and> session_userId row = jwt_sub payload
                            \<and> now < session_expiresAt row) (sessions s) of
             None \<Rightarrow> (Inl (UnauthorizedException ''Invalid refresh token''), s)
           | Some session \<Rightarrow>
               (case find (\<lambda>u. user_id u = jwt_sub payload) (users s) of
                  None \<Rightarrow> (Inl (UnauthorizedException ''User not found''), s)
                | Some user \<Rightarrow>
                    let tokens = generateTokens L cfg now user;
                        s1 = s\<lparr>sessions :=
                                 filter (\<lambda>row. session_id row \<noteq> session_id session) (sessions s)\<rparr>;
                        s2 = createSession L cfg now (user_id user) (refreshToken tokens) s1
                    in (Inr tokens, s2))))"

text \<open>\<open>AuthService.refreshTokens\<close>: the \<open>catch\<close> turns every exception into one error.\<close>

definition refreshTokens ::
  "lib \<Rightarrow> config \<Rightarrow> int \<Rightarrow> string \<Rightarrow> world \<Rightarrow> (error + Tokens) \<times> world" where
  "refreshTokens L cfg now token s =
     (case refreshTokens_try L cfg now token s of
        (Inl e, s1) \<Rightarrow> (Inl (UnauthorizedException ''Invalid refresh token''), s1)
      | (Inr tokens, s1) \<Rightarrow> (Inr tokens, s1))"

text \<open>\<open>AuthService.logout\<close>.\<close>

definition logout :: "string \<Rightarrow> string option \<Rightarrow> world \<Rightarrow> world" where
  "logout userId token s =
     (if truthy token
      then s\<lparr>sessions :=
             filter (\<lambda>row. \<not> (session_userId row = userId \<and> Some (session_token row) = token))
               (sessions s)\<rparr>
      else s\<lparr>sessions := filter (\<lambda>row. session_userId row \<noteq> userId) (sessions s)\<rparr>)"

section \<open>A concrete instance, for evaluation\<close>

text \<open>
  Small executable stand-ins for the libraries, a configuration with the default values
  of the configuration factory, and a store with one user. The signer stamps the issue
  time in whole seconds, as the \<open>iat\<close> claim of a JWT is. The cipher takes a key of 32
  bytes, a nonce of 16 bytes and a plaintext of less than 256 bytes, and its tag holds
  the length of the ciphertext, the key, the nonce and the ciphertext. The
  time zone is that of \<open>ecosystem.config.js\<close>, Asia/Jakarta, seven hours ahead of UTC
  without clock changes. They serve to evaluate the services on concrete inputs.
\<close>

definition demo_hash :: "string \<Rightarrow> string \<Rightarrow> string" where
  "demo_hash plain salt = salt @ ''$'' @ plain"

definition demo_hash_verify :: "string \<Rightarrow> string \<Rightarrow> bool" where
  "demo_hash_verify h plain =
     (case dropWhile (\<lambda>c. c \<noteq> CHR ''$'') h of [] \<Rightarrow> False | _ # rest \<Rightarrow> rest = plain)"

definition demo_sign :: "string \<Rightarrow> JwtPayload \<Rightarrow> string \<Rightarrow> int \<Rightarrow> string" where
  "demo_sign secret payload expiresIn now =
     secret @ ''.'' @ jwt_sub payload @ ''.'' @ expiresIn @ ''.'' @ num_toString (Fin (now div 1000))"

definition demo_jwt_verify :: "string \<Rightarrow> string \<Rightarrow> int \<Rightarrow> JwtPayload option" where
  "demo_jwt_verify token secret now =
     (case split_on CHR ''.'' token of
        [sec, sub, expiresIn, iat] \<Rightarrow>
          if sec = secret \<and> num_ge (parseInt iat) (now div 1000 + 1 - 604800)
          then Some \<lparr>jwt_sub = sub, jwt_email = [], jwt_username = [], jwt_role = USER\<rparr>
          else None
      | _ \<Rightarrow> None)"

definition demo_code :: "string \<Rightarrow> int \<Rightarrow> string" where
  "demo_code secret step = num_toString (Fin (100000 + (int (length secret) * 7919 + step) mod 900000))"

definition demo_totp_verify :: "string \<Rightarrow> string \<Rightarrow> int \<Rightarrow> bool" where
  "demo_totp_verify secret token now =
     (token \<in> set (map (\<lambda>d. demo_code secret (now div 30000 + d)) [- 2, - 1, 0, 1, 2]))"

definition demo_tag :: "string \<Rightarrow> string \<Rightarrow> string \<Rightarrow> string" where
  "demo_tag key iv ct = char_of (length ct) # key @ iv @ ct"

definition demo_gcm_encrypt :: "string \<Rightarrow> string \<Rightarrow> string \<Rightarrow> (string \<times> string) option" where
  "demo_gcm_encrypt key iv plain =
     (if length key = 32 \<and> length iv = 16 \<and> length plain < 256
      then Some (rev plain, demo_tag key iv (rev plain))
      else None)"

definition demo_gcm_decrypt :: "string \<Rightarrow> string \<Rightarrow> string \<Rightarrow> string \<Rightarrow> string option" where
  "demo_gcm_decrypt key iv tag ct =
     (if length key = 32 \<and> length iv = 16 \<and> length ct < 256 \<and> tag = demo_tag key iv ct
      then Some (rev ct)
      else None)"

definition demo_zone :: "int \<Rightarrow> bool \<Rightarrow> int" where
  "demo_zone t isUTC = 25200000"

definition demo_lib :: lib where
  "demo_lib = \<lparr>argon2_hash = demo_hash, argon2_verify = demo_hash_verify,
                jwt_sign = demo_sign, jwt_verify = demo_jwt_verify,
                totp_verify = demo_totp_verify,
                gcm_encrypt = demo_gcm_encrypt, gcm_decrypt = demo_gcm_decrypt,
                localTZA = demo_zone\<rparr>"

text \<open>
  A time zone with a clock change, Europe/Berlin around 31 March 2024: local time is one
  hour ahead of UTC until the instant 1711846800000 (01:00 UTC on that day) and two hours
  ahead from then on. The local times of the skipped hour are read with the offset before
  the change.
\<close>

definition demo_berlin_zone :: "int \<Rightarrow> bool \<Rightarrow> int" where
  "demo_berlin_zone t isUTC =
     (if isUTC then (if t < 1711846800000 then 3600000 else 7200000)
      else (if t < 1711846800000 + 7200000 then 3600000 else 7200000))"

definition demo_berlin_lib :: lib where
  "demo_berlin_lib = demo_lib\<lparr>localTZA := demo_berlin_zone\<rparr>"

definition demo_key_bytes :: string where
  "demo_key_bytes = ''kkkkkkkkkkkkkkkkkkkkkkkkkkkkkkkk''"

definition demo_key :: string where
  "demo_key = to_hex demo_key_bytes"


definition demo_cfg :: config where
  "demo_cfg = \<lparr>jwt_secret = ''k1'', jwt_refreshSecret = ''k2'', jwt_expiresIn = ''15m'',
                jwt_refreshExpiresIn = ''7d'', twoFactor_encryptionKey = demo_key,
                twoFactor_otpExpiryMinutes = 5, twoFactor_maxOTPAttempts = 5,
                twoFactor_maxResendAttempts = 3, twoFactor_lockoutMinutes = 15,
                lockout_maxAttempts = 5, lockout_lockoutMinutes = 15\<rparr>"

definition alice :: User where
  "alice = \<lparr>user_id = ''u1'', user_name = ''Alice'', user_username = ''a'',
             user_email = ''a@x.com'', user_image = None, user_role = USER\<rparr>"

definition demo_world :: world where
  "demo_world = \<lparr>users = [alice],
                  accounts = [\<lparr>account_id = ''acc1'', account_userId = ''u1'',
                               passwordHash = demo_hash ''Secr3t!23'' ''salt'', lastLoginAt = None\<rparr>],
                  twoFactorAuths = [], sessions = [], emailOTPs = [], loginAttempts = [],
                  auditLogs = [], redis = Map.empty, outbox = [], next_id = 1\<rparr>"


definition demo_iv :: string where
  "demo_iv = ''0123456789abcdef''"

definition demo_secret :: string where
  "demo_secret = ''JBSWY3DPEHPK3PXP''"

definition demo_envelope :: string where
  "demo_envelope =
     to_hex demo_iv @ '':'' @ to_hex (demo_tag demo_key_bytes demo_iv (rev demo_secret)) @ '':'' @
     to_hex (rev demo_secret)"

definition demo_totp :: TwoFactorAuth where
  "demo_totp = \<lparr>tfa_userId = ''u1'', tfa_type = TOTP, tfa_secret = demo_envelope,
                 tfa_enabled = True,
                 recoveryCodes = Some [demo_hash ''ABCD1234'' ''r1'', demo_hash ''0F0F0F0F'' ''r2'']\<rparr>"

definition demo_email :: TwoFactorAuth where
  "demo_email = \<lparr>tfa_userId = ''u1'', tfa_type = EMAIL, tfa_secret = ''email'',
                  tfa_enabled = True, recoveryCodes = None\<rparr>"

definition demo_dto :: "string option \<Rightarrow> LoginDto" where
  "demo_dto token = \<lparr>dto_identifier = ''a@x.com'', dto_password = ''Secr3t!23'',
                      twoFactorToken = token\<rparr>"

definition demo_session :: Session where
  "demo_session = \<lparr>session_id = 0, session_userId = ''u1'', session_token = ''k2.u1.7d.1'',
                    session_expiresAt = 604801000\<rparr>"

definition bob_dto :: RegisterDto where
  "bob_dto = \<lparr>reg_name = ''Bob'', reg_username = ''b'', reg_email = ''b@x.com'',
               reg_password = ''Passw0rd!'', reg_image = None\<rparr>"

definition demo_after_login :: world where
  "demo_after_login = snd (login demo_lib demo_cfg 1000 0 ''s'' (demo_dto None) None demo_world)"

definition demo_after_refresh :: world where
  "demo_after_refresh =
     snd (refreshTokens demo_lib demo_cfg 1500 ''k2.u1.7d.1'' demo_after_login)"

definition demo_totp_dup :: TwoFactorAuth where
  "demo_totp_dup =
     demo_totp\<lparr>recoveryCodes := Some [demo_hash ''ABCD1234'' ''r1'', demo_hash ''ABCD1234'' ''r2'']\<rparr>"

definition demo_account :: Account where
  "demo_account = \<lparr>account_id = ''acc1'', account_userId = ''u1'',
                    passwordHash = demo_hash ''Secr3t!23'' ''salt'', lastLoginAt = None\<rparr>"

definition demo_both :: world where
  "demo_both = demo_world\<lparr>twoFactorAuths := [demo_totp, demo_email]\<rparr>"

definition demo_challenged :: world where
  "demo_challenged = snd (login demo_lib demo_cfg 1000 23456 ''s'' (demo_dto None) None demo_both)"

definition demo_wrong_dto :: LoginDto where
  "demo_wrong_dto = \<lparr>dto_identifier = ''a@x.com'', dto_password = ''wrong'', twoFactorToken = None\<rparr>"

fun demo_failed :: "nat \<Rightarrow> world" where
  "demo_failed 0 = demo_world"
| "demo_failed (Suc n) =
     snd (login demo_lib demo_cfg (1000 + 1000 * int n) 0 ''s'' demo_wrong_dto (Some ''10.0.0.1'')
            (demo_failed n))"

fun demo_recorded :: "nat \<Rightarrow> world" where
  "demo_recorded 0 = demo_world"
| "demo_recorded (Suc n) =
     recordFailedAttempt demo_cfg (1000 + 1000 * int n) ''a@x.com'' None (demo_recorded n)"

section \<open>Facts about the number conversions\<close>

lemma is_digit_digit_char: "d < 10 \<Longrightarrow> is_digit (digit_char d)"
  by (simp add: is_digit_def digit_char_def)

lemma digit_val_digit_char: "d < 10 \<Longrightarrow> digit_val (digit_char d) = int d"
  by (simp add: digit_val_def digit_char_def)

lemma dec_all_digits: "\<forall>c \<in> set (dec n). is_digit c"
proof (induction n rule: dec.induct)
  case (1 n)
  show ?case
  proof (cases "n < 10")
    case True
    then show ?thesis by (subst dec.simps) (simp add: is_digit_digit_char)
  next
    case False
    with 1 show ?thesis by (subst dec.simps) (simp add: is_digit_digit_char)
  qed
qed

lemma dec_not_Nil: "dec n \<noteq> []"
  by (subst dec.simps) simp

lemma dec_value: "foldl (\<lambda>a c. a * 10 + digit_val c) 0 (dec n) = int n"
proof (induction n rule: dec.induct)
  case (1 n)
  show ?case
  proof (cases "n < 10")
    case True
    then show ?thesis by (subst dec.simps) (simp add: digit_val_digit_char)
  next
    case False
    with 1 show ?thesis
      by (subst dec.simps) (simp add: digit_val_digit_char zdiv_int zmod_int)
  qed
qed

lemma parse_digits_dec: "parse_digits (dec n) = Some (int n)"
proof -
  have tw: "takeWhile is_digit (dec n) = dec n"
    using dec_all_digits by (simp add: takeWhile_eq_all_conv)
  show ?thesis by (simp add: parse_digits_def Let_def tw dec_not_Nil dec_value)
qed

lemma is_digit_not_x: "is_digit c \<Longrightarrow> c \<noteq> CHR ''x'' \<and> c \<noteq> CHR ''X''"
  by (auto simp: is_digit_def)

lemma parse_unsigned_dec: "parse_unsigned (dec n) = Some (int n)"
proof (cases "dec n")
  case Nil
  then show ?thesis using dec_not_Nil by simp
next
  case (Cons c cs)
  note outer = Cons
  show ?thesis
  proof (cases cs)
    case Nil
    with outer show ?thesis using parse_digits_dec [of n] by (simp add: parse_unsigned_def)
  next
    case (Cons d rest)
    have "d \<in> set (dec n)" using outer Cons by simp
    then have "is_digit d" using dec_all_digits by blast
    then have "d \<noteq> CHR ''x'' \<and> d \<noteq> CHR ''X''" by (rule is_digit_not_x)
    with outer Cons show ?thesis
      using parse_digits_dec [of n] by (simp add: parse_unsigned_def)
  qed
qed

lemma is_digit_plain: "is_digit c \<Longrightarrow> c \<noteq> CHR ''-'' \<and> c \<noteq> CHR ''+''"
  by (auto simp: is_digit_def)

lemma skip_space_digit: "is_digit c \<Longrightarrow> skip_space (c # cs) = c # cs"
proof -
  assume d: "is_digit c"
  then have no: "\<not> ws1 (of_char c)" "\<And>b. \<not> ws2 (of_char c) b" "\<And>b e. \<not> ws3 (of_char c) b e"
    by (auto simp: is_digit_def ws1_def ws2_def ws3_def)
  show ?thesis
  proof (cases cs)
    case Nil
    then show ?thesis using no by simp
  next
    case (Cons b bs)
    then show ?thesis using no by (cases bs) simp_all
  qed
qed

lemma bit_length_le: "n < 2 ^ k \<Longrightarrow> bit_length n \<le> k"
proof (induction n arbitrary: k rule: bit_length.induct)
  case (1 n)
  show ?case
  proof (cases "n = 0")
    case True
    then show ?thesis by (subst bit_length.simps) simp
  next
    case False
    with 1 obtain j where k: "k = Suc j" by (cases k) auto
    with 1 False have "n div 2 < 2 ^ j" by auto
    with 1 False have "bit_length (n div 2) \<le> j" by blast
    with False k show ?thesis by (subst bit_length.simps) simp
  qed
qed

text \<open>An integer of at most 53 bits is a double.\<close>

lemma round_double_small: "\<bar>v\<bar> < 9007199254740992 \<Longrightarrow> round_double v = Fin v"
proof -
  assume v: "\<bar>v\<bar> < 9007199254740992"
  then have "nat \<bar>v\<bar> < 2 ^ 53" by simp
  then have "bit_length (nat \<bar>v\<bar>) \<le> 53" by (rule bit_length_le)
  then have k: "bit_length (nat \<bar>v\<bar>) - 53 = 0" by simp
  have "(2::int) ^ 53 \<le> 2 ^ 1024" by (rule power_increasing) simp_all
  then have big: "\<not> (2::int) ^ 1024 \<le> \<bar>v\<bar>" using v by simp
  have m: "int (nat \<bar>v\<bar>) = \<bar>v\<bar>" by simp
  show ?thesis
    unfolding round_double_def Let_def k
    by (simp only: power_0 div_by_1 mod_by_1 mult_1_right mult_zero_right m big if_False
          less_numeral_extra not_one_less_zero zero_neq_one)
       (cases "v < 0"; use v in simp)
qed

lemma num_toString_small:
  "0 \<le> n \<Longrightarrow> n < 9007199254740992 \<Longrightarrow> num_toString (Fin n) = dec (nat n)"
proof -
  assume "0 \<le> n" "n < 9007199254740992"
  then have "nat n < 2 ^ 53" by simp
  then show ?thesis using \<open>0 \<le> n\<close> by (simp add: num_toString_def digits_text_def)
qed

lemma parseInt_dec: "int n < 9007199254740992 \<Longrightarrow> parseInt (dec n) = Fin (int n)"
proof (cases "dec n")
  case Nil
  then show ?thesis using dec_not_Nil by simp
next
  case (Cons c cs)
  assume small: "int n < 9007199254740992"
  have "c \<in> set (dec n)" using Cons by simp
  then have d: "is_digit c" using dec_all_digits by blast
  then have plain: "c \<noteq> CHR ''-'' \<and> c \<noteq> CHR ''+''" by (rule is_digit_plain)
  have "parse_unsigned (c # cs) = Some (int n)"
    using parse_unsigned_dec [of n] Cons by simp
  then have "parseInt (c # cs) = round_double (int n)"
    using plain by (simp add: parseInt_def skip_space_digit [OF d])
  then show ?thesis using Cons small by (simp add: round_double_small)
qed

lemma parseInt_toString_nonneg:
  "0 \<le> n \<Longrightarrow> n < 9007199254740992 \<Longrightarrow> parseInt (num_toString (Fin n)) = Fin n"
  using parseInt_dec [of "nat n"] by (simp add: num_toString_small)

lemma parseInt_Nil: "parseInt [] = NaN"
  by (simp add: parseInt_def)

lemma randomInt_bounds: "lo < hi \<Longrightarrow> lo \<le> randomInt lo hi r \<and> randomInt lo hi r < hi"
proof -
  assume "lo < hi"
  then have pos: "0 < hi - lo" by simp
  have "0 \<le> int r mod (hi - lo)" using pos by (rule pos_mod_sign)
  moreover have "int r mod (hi - lo) < hi - lo" using pos by (rule pos_mod_bound)
  ultimately show ?thesis unfolding randomInt_def by linarith
qed

lemma randomInt_onto: "lo \<le> n \<Longrightarrow> n < hi \<Longrightarrow> randomInt lo hi (nat (n - lo)) = n"
  by (simp add: randomInt_def)

lemma dec_small: "n < 10 \<Longrightarrow> dec n = [digit_char n]"
  by (subst dec.simps) simp

lemma dec_large: "\<not> n < 10 \<Longrightarrow> dec n = dec (n div 10) @ [digit_char (n mod 10)]"
  by (subst dec.simps) simp

lemma digit_char_eval:
  "digit_char 0 = CHR ''0''" "digit_char 1 = CHR ''1''" "digit_char 2 = CHR ''2''"
  "digit_char 3 = CHR ''3''" "digit_char 4 = CHR ''4''" "digit_char 5 = CHR ''5''"
  "digit_char 6 = CHR ''6''" "digit_char 7 = CHR ''7''" "digit_char 8 = CHR ''8''"
  "digit_char 9 = CHR ''9''" "digit_char (Suc 0) = CHR ''1''"
  by code_simp+

lemmas num_eval = num_toString_small dec_small dec_large digit_char_eval

lemma parseInt_digit_texts:
  "parseInt ''1'' = Fin 1" "parseInt ''2'' = Fin 2" "parseInt ''3'' = Fin 3"
  "parseInt ''4'' = Fin 4" "parseInt ''5'' = Fin 5"
  using parseInt_toString_nonneg [of 1] parseInt_toString_nonneg [of 2]
    parseInt_toString_nonneg [of 3] parseInt_toString_nonneg [of 4]
    parseInt_toString_nonneg [of 5]
  by (simp_all add: num_eval)

section \<open>Facts about the secret codec\<close>

lemma hex_val_hex_digit: "d < 16 \<Longrightarrow> hex_val (hex_digit d) = Some d"
  by (auto simp: hex_val_def hex_digit_def Let_def)

lemma hex_digit_not_colon: "d < 16 \<Longrightarrow> hex_digit d \<noteq> CHR '':''"
proof
  assume d: "d < 16" and "hex_digit d = CHR '':''"
  then have "hex_val (hex_digit d) = hex_val CHR '':''" by simp
  then show False using d by (simp add: hex_val_hex_digit) (simp add: hex_val_def)
qed

lemma hex_digit_ascii: "d < 16 \<Longrightarrow> (of_char (hex_digit d) :: nat) < 128"
  by (simp add: hex_digit_def)

lemma of_char_less: "(of_char c :: nat) < 256"
proof -
  have "(of_char c :: nat) mod 256 = of_char c" by (rule of_char_mod_256)
  then show ?thesis by (metis mod_less_divisor zero_less_numeral)
qed

lemma byte_hi: "(of_char c :: nat) div 16 < 16"
proof (rule less_mult_imp_div_less)
  show "(of_char c :: nat) < 16 * 16" using of_char_less [of c] by simp
qed

lemma byte_split: "char_of (16 * ((of_char c :: nat) div 16) + (of_char c :: nat) mod 16) = c"
  by simp

lemma to_hex_Cons:
  "to_hex (b # bs) =
     hex_digit ((of_char b :: nat) div 16) # hex_digit ((of_char b :: nat) mod 16) # to_hex bs"
  by (simp add: to_hex_def)

lemma from_hex_to_hex: "from_hex (to_hex bs) = bs"
proof (induction bs)
  case Nil
  then show ?case by (simp add: to_hex_def)
next
  case (Cons b bs)
  have hi: "(of_char b :: nat) div 16 < 16" by (rule byte_hi)
  have lo: "(of_char b :: nat) mod 16 < 16" by simp
  show ?case
    using Cons hi lo
    by (simp add: to_hex_Cons hex_val_hex_digit byte_split del: mult_div_mod_eq)
qed

lemma to_hex_no_colon: "CHR '':'' \<notin> set (to_hex bs)"
proof (induction bs)
  case Nil
  then show ?case by (simp add: to_hex_def)
next
  case (Cons b bs)
  have hi: "(of_char b :: nat) div 16 < 16" by (rule byte_hi)
  have lo: "(of_char b :: nat) mod 16 < 16" by simp
  show ?case
    using Cons hex_digit_not_colon [OF hi] hex_digit_not_colon [OF lo]
    by (auto simp: to_hex_Cons)
qed

lemma to_hex_Nil_iff: "to_hex bs = [] \<longleftrightarrow> bs = []"
  by (cases bs) (simp_all add: to_hex_def)

text \<open>The hexadecimal text of a buffer has an even length.\<close>

lemma utf16_length_to_hex: "utf16_length (to_hex bs) = 2 * length bs"
proof (induction bs)
  case Nil
  then show ?case by (simp add: to_hex_def utf16_length_def)
next
  case (Cons b bs)
  have hi: "(of_char (hex_digit ((of_char b :: nat) div 16)) :: nat) < 128"
    by (rule hex_digit_ascii) (rule byte_hi)
  have lo: "(of_char (hex_digit ((of_char b :: nat) mod 16)) :: nat) < 128"
    by (rule hex_digit_ascii) simp
  show ?case
    using Cons hi lo by (simp add: to_hex_Cons utf16_length_def)
qed

lemma split_on_not_Nil: "split_on c xs \<noteq> []"
  by (induction xs) (auto split: list.splits)

lemma split_on_absent: "c \<notin> set xs \<Longrightarrow> split_on c xs = [xs]"
  by (induction xs) auto

lemma split_on_first: "c \<notin> set a \<Longrightarrow> split_on c (a @ c # b) = a # split_on c b"
  by (induction a) (auto split: list.splits simp: split_on_not_Nil)

lemma split_envelope:
  "split_on CHR '':'' (to_hex i @ '':'' @ to_hex t @ '':'' @ to_hex e) = [to_hex i, to_hex t, to_hex e]"
  using to_hex_no_colon by (simp add: split_on_first split_on_absent)

text \<open>
  \<open>decrypt\<close> on an envelope of three fields without a colon, and on one with more text
  after a third colon: the same.
\<close>

lemma decrypt_fields:
  assumes "CHR '':'' \<notin> set i" "CHR '':'' \<notin> set t" "CHR '':'' \<notin> set e"
  shows "decrypt L (i @ '':'' @ t @ '':'' @ e) key =
           (if i = [] \<or> t = [] \<or> e = [] then Inl (Error ''Invalid encrypted text format'')
            else if odd (utf16_length e) then Inl CryptoError
            else case gcm_decrypt L (from_hex key) (from_hex i) (from_hex t) (from_hex e) of
                   None \<Rightarrow> Inl CryptoError
                 | Some plain \<Rightarrow> Inr plain)"
proof -
  have "split_on CHR '':'' (i @ '':'' @ t @ '':'' @ e) = [i, t, e]"
    using assms by (simp add: split_on_first split_on_absent)
  then show ?thesis
    by (simp add: decrypt_def nth_opt_def del: append.simps)
qed


lemma decrypt_envelope:
  assumes "i \<noteq> []" "t \<noteq> []" "e \<noteq> []"
  shows "decrypt L (to_hex i @ '':'' @ to_hex t @ '':'' @ to_hex e) key =
           (case gcm_decrypt L (from_hex key) i t e of
              None \<Rightarrow> Inl CryptoError
            | Some plain \<Rightarrow> Inr plain)"
  using assms
  by (simp add: decrypt_fields to_hex_no_colon from_hex_to_hex to_hex_Nil_iff
        utf16_length_to_hex del: append.simps)


















lemma demo_key_bytes: "from_hex demo_key = demo_key_bytes \<and> length demo_key_bytes = 32"
  by (simp add: demo_key_def from_hex_to_hex) (simp add: demo_key_bytes_def)

lemma demo_iv_length: "length demo_iv = 16"
  by (simp add: demo_iv_def)


lemma demo_tag_not_Nil: "demo_tag demo_key_bytes iv ct \<noteq> []"
  by (simp add: demo_tag_def demo_key_bytes_def)

lemma demo_decrypt: "decrypt demo_lib demo_envelope demo_key = Inr demo_secret"
proof -
  have "decrypt demo_lib demo_envelope demo_key =
          (case gcm_decrypt demo_lib (from_hex demo_key) demo_iv
                  (demo_tag demo_key_bytes demo_iv (rev demo_secret)) (rev demo_secret) of
              None \<Rightarrow> Inl CryptoError
            | Some plain \<Rightarrow> Inr plain)"
    unfolding demo_envelope_def
    by (rule decrypt_envelope) (simp_all add: demo_iv_def demo_tag_not_Nil demo_secret_def)
  then show ?thesis
    by (simp add: demo_lib_def demo_gcm_decrypt_def demo_key_bytes demo_iv_length)
       (simp add: demo_secret_def)
qed

section \<open>Facts about the email challenge table\<close>

lemma latest_otp_None: "latest_otp xs = None \<longleftrightarrow> xs = []"
  by (induction xs) (auto split: option.splits)

lemma latest_otp_Some:
  "latest_otp xs = Some r \<Longrightarrow> r \<in> set xs \<and> (\<forall>x \<in> set xs. otp_createdAt x \<le> otp_createdAt r)"
proof (induction xs arbitrary: r)
  case Nil
  then show ?case by simp
next
  case (Cons x xs)
  show ?case
  proof (cases "latest_otp xs")
    case None
    then have "xs = []" by (simp add: latest_otp_None)
    with Cons.prems None show ?thesis by simp
  next
    case (Some y)
    from Cons.IH [OF Some] have y: "y \<in> set xs" "\<forall>x \<in> set xs. otp_createdAt x \<le> otp_createdAt y"
      by auto
    show ?thesis
    proof (cases "otp_createdAt x < otp_createdAt y")
      case True
      with Cons.prems Some have "r = y" by simp
      with y True show ?thesis by auto
    next
      case False
      with Cons.prems Some have "r = x" by simp
      with y False show ?thesis by fastforce
    qed
  qed
qed


lemma findLiveOTP_Some:
  assumes "findLiveOTP now userId s = Some r"
  shows "r \<in> set (emailOTPs s) \<and> otp_userId r = userId \<and> now < otp_expiresAt r
         \<and> (\<forall>row \<in> set (emailOTPs s). otp_userId row = userId \<and> now < otp_expiresAt row
               \<longrightarrow> otp_createdAt row \<le> otp_createdAt r)"
  using latest_otp_Some [OF assms [unfolded findLiveOTP_def]] by auto


lemma filter_after_bump:
  "filter (\<lambda>row. otp_id row \<noteq> i)
     (map (\<lambda>row. if otp_id row = i then row\<lparr>otp_attempts := k\<rparr> else row) xs)
   = filter (\<lambda>row. otp_id row \<noteq> i) xs"
  by (induction xs) auto




lemma verifyOTP_match:
  assumes "\<not> (case redis_get now s (''otp:attempts:'' @ userId) of
                None \<Rightarrow> False
              | Some a \<Rightarrow> a \<noteq> [] \<and> num_ge (parseInt a) (twoFactor_maxOTPAttempts cfg))"
    and "findLiveOTP now userId s = Some ch"
    and "argon2_verify L (otpHash ch) otp"
  shows "verifyOTP L cfg now userId otp s =
           (Inr True,
            s\<lparr>emailOTPs := filter (\<lambda>row. otp_id row \<noteq> otp_id ch) (emailOTPs s),
               redis := (redis s)(''otp:attempts:'' @ userId := None,
                                  ''otp:resend:'' @ userId := None)\<rparr>)"
  using assms by (simp add: verifyOTP_def Let_def redis_del_def filter_after_bump)


section \<open>Facts about the login steps\<close>

lemma find_filter_conj: "find P (filter Q xs) = find (\<lambda>x. Q x \<and> P x) xs"
  by (induction xs) auto

lemma find_strengthen:
  "find Q xs = Some t \<Longrightarrow> P t \<Longrightarrow> find (\<lambda>x. Q x \<and> P x) xs = Some t"
  by (induction xs) (auto split: if_splits)

lemma enabledFactor_of_row:
  assumes "findTwoFactor s userId ty = Some t" and "tfa_enabled t"
  shows "enabledFactor s userId ty = Some t"
proof -
  have "find (\<lambda>a. (tfa_userId a = userId \<and> tfa_type a = ty) \<and> tfa_enabled a) (twoFactorAuths s) = Some t"
    using find_strengthen [where Q = "\<lambda>a. tfa_userId a = userId \<and> tfa_type a = ty"
        and P = tfa_enabled and xs = "twoFactorAuths s" and t = t] assms
    by (simp add: findTwoFactor_def)
  then show ?thesis
    by (simp add: enabledFactor_def find_filter_conj conj_assoc)
qed

lemma sessions_createSession:
  "sessions (createSession L cfg now userId token s) =
     sessions s @ [\<lparr>session_id = next_id s, session_userId = userId,
                    session_token = token, session_expiresAt =
               now + localTZA L now True + 604800000 - localTZA L (now + localTZA L now True + 604800000) False\<rparr>]"
  by (simp add: createSession_def Let_def)

lemma login_issue_result:
  "login_issue L cfg now dto ip user account s =
     (Inr (LoginOk user (generateTokens L cfg now user)),
      createSession L cfg now (user_id user) (refreshToken (generateTokens L cfg now user))
        (logLoginAttempt (dto_identifier dto) ip True
          (s\<lparr>accounts := update_first (\<lambda>a. account_id a = account_id account)
                           (\<lambda>a. a\<lparr>lastLoginAt := Some now\<rparr>) (accounts s)\<rparr>)))"
  by (simp add: login_issue_def Let_def)

lemma sessions_login_issue:
  "sessions (snd (login_issue L cfg now dto ip user account s)) =
     sessions s @ [\<lparr>session_id = next_id s, session_userId = user_id user,
                    session_token = refreshToken (generateTokens L cfg now user),
                    session_expiresAt =
               now + localTZA L now True + 604800000 - localTZA L (now + localTZA L now True + 604800000) False\<rparr>]"
  by (simp add: login_issue_result sessions_createSession logLoginAttempt_def)

lemma demo_zone_same: "localTZA demo_lib t b = 25200000"
  by (simp add: demo_lib_def demo_zone_def)

section \<open>Facts about the session table\<close>

lemma verifyOTP_keeps_sessions:
  "sessions (snd (verifyOTP L cfg now userId otp s)) = sessions s
   \<and> next_id (snd (verifyOTP L cfg now userId otp s)) = next_id s"
  by (simp add: verifyOTP_def Let_def redis_set_def redis_del_def split: option.splits)

lemma verifyRecoveryCode_keeps_sessions:
  "sessions (snd (verifyRecoveryCode L userId code s)) = sessions s
   \<and> next_id (snd (verifyRecoveryCode L userId code s)) = next_id s"
  by (simp add: verifyRecoveryCode_def Let_def split: option.splits)

lemma login_verify2FA_keeps_sessions:
  "sessions (snd (login_verify2FA L cfg now user totpAuth emailAuth token ip s)) = sessions s
   \<and> next_id (snd (login_verify2FA L cfg now user totpAuth emailAuth token ip s)) = next_id s"
proof (cases totpAuth)
  case None
  show ?thesis
  proof (cases emailAuth)
    case None
    with \<open>totpAuth = None\<close> show ?thesis
      by (simp add: login_verify2FA_def audit_log_def)
  next
    case (Some e)
    obtain res s1 where v: "verifyOTP L cfg now (user_id user) token s = (res, s1)"
      by (cases "verifyOTP L cfg now (user_id user) token s")
    then have "sessions s1 = sessions s \<and> next_id s1 = next_id s"
      using verifyOTP_keeps_sessions [of L cfg now "user_id user" token s] by simp
    with v Some \<open>totpAuth = None\<close> show ?thesis
      by (cases res) (simp_all add: login_verify2FA_def audit_log_def)
  qed
next
  case (Some t)
  show ?thesis
  proof (cases "verifyTOTP L cfg now (user_id user) token s")
    case (Inl e)
    with Some show ?thesis by (simp add: login_verify2FA_def)
  next
    case (Inr v)
    obtain v2 s1 where r: "verifyRecoveryCode L (user_id user) token s = (v2, s1)"
      by (cases "verifyRecoveryCode L (user_id user) token s")
    then have "sessions s1 = sessions s \<and> next_id s1 = next_id s"
      using verifyRecoveryCode_keeps_sessions [of L "user_id user" token s] by simp
    with r Inr Some show ?thesis
      by (simp add: login_verify2FA_def audit_log_def)
  qed
qed

lemma sessions_after_verify2FA:
  "login_verify2FA L cfg now user totpAuth emailAuth token ip s = (res, s1) \<Longrightarrow>
   sessions s1 = sessions s \<and> next_id s1 = next_id s"
  using login_verify2FA_keeps_sessions [of L cfg now user totpAuth emailAuth token ip s] by simp

lemma login_issue_sessions_eq:
  assumes m: "sessions m = sessions s \<and> next_id m = next_id s"
    and li: "login_issue L cfg now dto ip u0 acc m = (Inr (LoginOk u t), s')"
  shows "sessions s' = sessions s @
           [\<lparr>session_id = next_id s, session_userId = user_id u,
             session_token = refreshToken t, session_expiresAt =
               now + localTZA L now True + 604800000 - localTZA L (now + localTZA L now True + 604800000) False\<rparr>]"
proof -
  from li have "u0 = u \<and> t = generateTokens L cfg now u0
      \<and> s' = snd (login_issue L cfg now dto ip u0 acc m)"
    by (auto simp: login_issue_result)
  then show ?thesis using sessions_login_issue [of L cfg now dto ip u0 acc m] m by simp
qed

lemma login_success_sessions:
  assumes "login L cfg now r salt dto ip s = (Inr (LoginOk u t), s')"
  shows "sessions s' = sessions s @
           [\<lparr>session_id = next_id s, session_userId = user_id u,
             session_token = refreshToken t, session_expiresAt =
               now + localTZA L now True + 604800000 - localTZA L (now + localTZA L now True + 604800000) False\<rparr>]"
proof -
  obtain u0 acc m where "sessions m = sessions s \<and> next_id m = next_id s"
    and "login_issue L cfg now dto ip u0 acc m = (Inr (LoginOk u t), s')"
    using assms unfolding login_def Let_def
    by (auto split: option.splits if_splits prod.splits sum.splits
          dest: sessions_after_verify2FA)
  then show ?thesis by (rule login_issue_sessions_eq)
qed

lemma register_success_sessions:
  assumes "register L cfg now newUserId newAccountId salt dto s = (Inr (u, t), s')"
  shows "sessions s' = sessions s @
           [\<lparr>session_id = next_id s, session_userId = user_id u,
             session_token = refreshToken t, session_expiresAt =
               now + localTZA L now True + 604800000 - localTZA L (now + localTZA L now True + 604800000) False\<rparr>]"
  using assms
  by (auto simp: register_def Let_def sessions_createSession split: option.splits if_splits)

lemma refreshTokens_success:
  assumes "refreshTokens L cfg now token s = (Inr t, s')"
  shows "\<exists>payload old user.
           jwt_verify L token (jwt_refreshSecret cfg) now = Some payload
         \<and> find (\<lambda>row. session_token row = token \<and> session_userId row = jwt_sub payload
                         \<and> now < session_expiresAt row) (sessions s) = Some old
         \<and> find (\<lambda>u. user_id u = jwt_sub payload) (users s) = Some user
         \<and> t = generateTokens L cfg now user
         \<and> s' = createSession L cfg now (user_id user) (refreshToken t)
                  (s\<lparr>sessions := filter (\<lambda>row. session_id row \<noteq> session_id old) (sessions s)\<rparr>)"
  using assms
  by (auto simp: refreshTokens_def refreshTokens_try_def Let_def split: option.splits prod.splits sum.splits)

lemma refreshTokens_success_sessions:
  assumes "refreshTokens L cfg now token s = (Inr t, s')"
  shows "\<exists>old u. sessions s' =
           filter (\<lambda>row. session_id row \<noteq> old) (sessions s) @
           [\<lparr>session_id = next_id s, session_userId = u,
             session_token = refreshToken t, session_expiresAt =
               now + localTZA L now True + 604800000 - localTZA L (now + localTZA L now True + 604800000) False\<rparr>]"
proof -
  from refreshTokens_success [OF assms] obtain payload old user where
    "jwt_verify L token (jwt_refreshSecret cfg) now = Some payload
         \<and> find (\<lambda>row. session_token row = token \<and> session_userId row = jwt_sub payload
                         \<and> now < session_expiresAt row) (sessions s) = Some old
         \<and> find (\<lambda>u. user_id u = jwt_sub payload) (users s) = Some user
         \<and> t = generateTokens L cfg now user
         \<and> s' = createSession L cfg now (user_id user) (refreshToken t)
                  (s\<lparr>sessions := filter (\<lambda>row. session_id row \<noteq> session_id old) (sessions s)\<rparr>)"
    by (elim exE)
  then have "sessions s' =
           filter (\<lambda>row. session_id row \<noteq> session_id old) (sessions s) @
           [\<lparr>session_id = next_id s, session_userId = user_id user,
             session_token = refreshToken t, session_expiresAt =
               now + localTZA L now True + 604800000 - localTZA L (now + localTZA L now True + 604800000) False\<rparr>]"
    by (simp add: sessions_createSession)
  then show ?thesis by blast
qed

lemma demo_jwt_verify_session:
  "jwt_verify demo_lib ''k2.u1.7d.1'' (jwt_refreshSecret demo_cfg) 5000 =
     Some \<lparr>jwt_sub = ''u1'', jwt_email = [], jwt_username = [], jwt_role = USER\<rparr>"
proof -
  show ?thesis
    by (simp add: demo_lib_def demo_cfg_def demo_jwt_verify_def num_ge_def parseInt_digit_texts)
qed

section \<open>Facts about token refresh\<close>

lemma find_SomeD: "find P xs = Some x \<Longrightarrow> x \<in> set xs \<and> P x"
  by (induction xs) (auto split: if_splits)

lemma refreshTokens_no_session:
  assumes "\<forall>row \<in> set (sessions s). session_token row = token \<longrightarrow> session_expiresAt row \<le> now"
  shows "refreshTokens L cfg now token s = (Inl (UnauthorizedException ''Invalid refresh token''), s)"
proof (cases "jwt_verify L token (jwt_refreshSecret cfg) now")
  case None
  then show ?thesis by (simp add: refreshTokens_def refreshTokens_try_def)
next
  case (Some payload)
  have "find (\<lambda>row. session_token row = token \<and> session_userId row = jwt_sub payload
                         \<and> now < session_expiresAt row) (sessions s) = None"
    using assms by (auto simp: find_None_iff)
  with Some show ?thesis by (simp add: refreshTokens_def refreshTokens_try_def)
qed

lemmas demo_eval =
  demo_lib_def demo_cfg_def demo_world_def alice_def demo_dto_def demo_hash_def
  demo_hash_verify_def demo_sign_def demo_session_def

lemma demo_jwt_verify_k2:
  "now div 1000 < 604801 \<Longrightarrow>
   demo_jwt_verify ''k2.u1.7d.1'' ''k2'' now =
     Some \<lparr>jwt_sub = ''u1'', jwt_email = [], jwt_username = [], jwt_role = USER\<rparr>"
  by (simp add: demo_jwt_verify_def num_ge_def parseInt_digit_texts)

lemma demo_tokens_1000:
  "generateTokens demo_lib demo_cfg 1000 alice =
     \<lparr>accessToken = ''k1.u1.15m.1'', refreshToken = ''k2.u1.7d.1''\<rparr>"
  by (simp add: generateTokens_def demo_eval num_eval)

lemma demo_tokens_1500:
  "generateTokens demo_lib demo_cfg 1500 alice =
     \<lparr>accessToken = ''k1.u1.15m.1'', refreshToken = ''k2.u1.7d.1''\<rparr>"
  by (simp add: generateTokens_def demo_eval num_eval)

lemma demo_tokens_5000:
  "generateTokens demo_lib demo_cfg 5000 alice =
     \<lparr>accessToken = ''k1.u1.15m.5'', refreshToken = ''k2.u1.7d.5''\<rparr>"
  by (simp add: generateTokens_def demo_eval num_eval)

lemma demo_after_login_rows:
  "sessions demo_after_login =
     [\<lparr>session_id = 1, session_userId = ''u1'', session_token = ''k2.u1.7d.1'',
       session_expiresAt = 604801000\<rparr>]
   \<and> users demo_after_login = [alice] \<and> next_id demo_after_login = 2"
proof -
  have "login demo_lib demo_cfg 1000 0 ''s'' (demo_dto None) None demo_world =
          login_issue demo_lib demo_cfg 1000 (demo_dto None) None alice
            \<lparr>account_id = ''acc1'', account_userId = ''u1'',
              passwordHash = demo_hash ''Secr3t!23'' ''salt'', lastLoginAt = None\<rparr> demo_world"
    by (simp add: login_def findUserByIdentifier_def findAccount_def enabledFactor_def
          demo_world_def alice_def demo_dto_def demo_lib_def demo_hash_def demo_hash_verify_def
          truthy_def)
  then show ?thesis
    using demo_tokens_1000
    by (simp add: demo_after_login_def login_issue_result createSession_def logLoginAttempt_def)
       (simp add: demo_world_def alice_def demo_lib_def demo_zone_def)
qed

lemma demo_refresh_1500:
  "refreshTokens demo_lib demo_cfg 1500 ''k2.u1.7d.1'' demo_after_login =
     (Inr \<lparr>accessToken = ''k1.u1.15m.1'', refreshToken = ''k2.u1.7d.1''\<rparr>,
      createSession demo_lib demo_cfg 1500 ''u1'' ''k2.u1.7d.1'' (demo_after_login\<lparr>sessions := []\<rparr>))"
proof -
  have v: "jwt_verify demo_lib ''k2.u1.7d.1'' (jwt_refreshSecret demo_cfg) 1500 =
     Some \<lparr>jwt_sub = ''u1'', jwt_email = [], jwt_username = [], jwt_role = USER\<rparr>"
    using demo_jwt_verify_k2 [of 1500] by (simp add: demo_lib_def demo_cfg_def)
  show ?thesis
    using v demo_after_login_rows demo_tokens_1500
    by (simp add: refreshTokens_def refreshTokens_try_def Let_def alice_def)
qed

lemma demo_after_refresh_rows:
  "sessions demo_after_refresh =
     [\<lparr>session_id = 2, session_userId = ''u1'', session_token = ''k2.u1.7d.1'',
       session_expiresAt = 604801500\<rparr>]
   \<and> users demo_after_refresh = [alice] \<and> next_id demo_after_refresh = 3"
  unfolding demo_after_refresh_def demo_refresh_1500
  using demo_after_login_rows
  by (simp add: createSession_def Let_def) (simp add: demo_lib_def demo_zone_def)

lemma demo_tokens_1900:
  "generateTokens demo_lib demo_cfg 1900 alice =
     \<lparr>accessToken = ''k1.u1.15m.1'', refreshToken = ''k2.u1.7d.1''\<rparr>"
  by (simp add: generateTokens_def demo_eval num_eval)

lemma demo_refresh_5000:
  "refreshTokens demo_lib demo_cfg 5000 ''k2.u1.7d.1'' demo_after_login =
     (Inr \<lparr>accessToken = ''k1.u1.15m.5'', refreshToken = ''k2.u1.7d.5''\<rparr>,
      createSession demo_lib demo_cfg 5000 ''u1'' ''k2.u1.7d.5'' (demo_after_login\<lparr>sessions := []\<rparr>))"
proof -
  have v: "jwt_verify demo_lib ''k2.u1.7d.1'' (jwt_refreshSecret demo_cfg) 5000 =
     Some \<lparr>jwt_sub = ''u1'', jwt_email = [], jwt_username = [], jwt_role = USER\<rparr>"
    using demo_jwt_verify_k2 [of 5000] by (simp add: demo_lib_def demo_cfg_def)
  show ?thesis
    using v demo_after_login_rows demo_tokens_5000
    by (simp add: refreshTokens_def refreshTokens_try_def Let_def alice_def)
qed

section \<open>Facts about the second factor at login\<close>

lemma find_first_match:
  "x \<in> set xs \<Longrightarrow> P x \<Longrightarrow> \<exists>y. find P xs = Some y \<and> P y \<and> y \<in> set xs"
  by (induction xs) auto

lemma find_update_first_same:
  "find P xs = Some y \<Longrightarrow> P (f y) \<Longrightarrow> find P (update_first P f xs) = Some (f y)"
  by (induction xs) (auto split: if_splits)

lemma find_update_first_other:
  "find P xs = Some y \<Longrightarrow> (\<And>x. P (f x) = P x) \<Longrightarrow>
   find P (update_first Q f xs) = Some y \<or> find P (update_first Q f xs) = Some (f y)"
  by (induction xs) (auto split: if_splits)

lemma login_second_factor_rejected:
  assumes user: "findUserByIdentifier s (dto_identifier dto) = Some user"
    and account: "findAccount s (user_id user) = Some account"
    and pw: "argon2_verify L (passwordHash account) (dto_password dto)"
    and en: "enabledFactor s (user_id user) TOTP = Some t"
    and token: "twoFactorToken dto = Some code \<and> code \<noteq> []"
    and vt: "verifyTOTP L cfg now (user_id user) code s = Inr False"
    and vr: "verifyRecoveryCode L (user_id user) code s = (False, s)"
  shows "fst (login L cfg now r salt dto ip s) = Inl (UnauthorizedException ''Invalid two-factor code'')"
proof -
  have "login_verify2FA L cfg now user (Some t) (enabledFactor s (user_id user) EMAIL) code ip s
          = (Inl (UnauthorizedException ''Invalid two-factor code''),
             audit_log \<lparr>al_userId = user_id user, al_action = ''2fa_verification_failed'',
                          al_method = Some ''google'', al_success = False,
                          al_ipAddress = ip\<rparr> s)"
    using vt vr by (simp add: login_verify2FA_def method_name_def)
  then show ?thesis
    using user account pw en token
    by (simp add: login_def truthy_def)
qed

lemma login_recovery_accepted:
  assumes user: "findUserByIdentifier s (dto_identifier dto) = Some user"
    and account: "findAccount s (user_id user) = Some account"
    and pw: "argon2_verify L (passwordHash account) (dto_password dto)"
    and en: "enabledFactor s (user_id user) TOTP = Some t"
    and token: "twoFactorToken dto = Some code \<and> code \<noteq> []"
    and vt: "verifyTOTP L cfg now (user_id user) code s = Inr False"
    and vr: "verifyRecoveryCode L (user_id user) code s = (True, s1)"
  shows "login L cfg now r salt dto ip s =
           login_issue L cfg now dto ip user account
             (audit_log \<lparr>al_userId = user_id user, al_action = ''2fa_verified'',
                          al_method = Some ''google'', al_success = True, al_ipAddress = ip\<rparr>
               (audit_log \<lparr>al_userId = user_id user, al_action = ''2fa_recovery_code_used'',
                            al_method = Some ''recovery'', al_success = True,
                            al_ipAddress = ip\<rparr> s1))"
proof -
  have "login_verify2FA L cfg now user (Some t) (enabledFactor s (user_id user) EMAIL) code ip s
          = (Inr (),
             audit_log \<lparr>al_userId = user_id user, al_action = ''2fa_verified'',
                          al_method = Some ''google'', al_success = True, al_ipAddress = ip\<rparr>
               (audit_log \<lparr>al_userId = user_id user, al_action = ''2fa_recovery_code_used'',
                            al_method = Some ''recovery'', al_success = True,
                            al_ipAddress = ip\<rparr> s1))"
    using vt vr by (simp add: login_verify2FA_def method_name_def)
  then show ?thesis
    using user account pw en token
    by (simp add: login_def truthy_def)
qed

lemma demo_no_totp_match:
  "\<not> totp_verify demo_lib demo_secret ''ABCD1234'' 1000
   \<and> \<not> totp_verify demo_lib demo_secret ''ABCD1234'' 2000"
  by (simp add: demo_lib_def demo_totp_verify_def demo_code_def demo_secret_def num_eval)

lemma demo_login_facts:
  "findUserByIdentifier (demo_world\<lparr>twoFactorAuths := [f]\<rparr>) (dto_identifier (demo_dto tok)) = Some alice
   \<and> findAccount (demo_world\<lparr>twoFactorAuths := [f]\<rparr>) (user_id alice) = Some demo_account
   \<and> argon2_verify demo_lib (passwordHash demo_account) (dto_password (demo_dto tok))
   \<and> twoFactorToken (demo_dto tok) = tok"
  by (simp add: findUserByIdentifier_def findAccount_def demo_world_def alice_def demo_dto_def
        demo_account_def demo_lib_def demo_hash_def demo_hash_verify_def)

section \<open>Facts about an identity with both factors\<close>

lemma login_totp_branch_rejected:
  assumes user: "findUserByIdentifier s (dto_identifier dto) = Some user"
    and account: "findAccount s (user_id user) = Some account"
    and pw: "argon2_verify L (passwordHash account) (dto_password dto)"
    and en: "enabledFactor s (user_id user) TOTP = Some t"
    and token: "twoFactorToken dto = Some code \<and> code \<noteq> []"
    and vt: "verifyTOTP L cfg now (user_id user) code s = Inr False"
    and vr: "verifyRecoveryCode L (user_id user) code s = (False, s)"
  shows "login L cfg now r salt dto ip s =
           (Inl (UnauthorizedException ''Invalid two-factor code''),
            audit_log \<lparr>al_userId = user_id user, al_action = ''2fa_verification_failed'',
                        al_method = Some ''google'', al_success = False,
                        al_ipAddress = ip\<rparr> s)"
proof -
  have "login_verify2FA L cfg now user (Some t) (enabledFactor s (user_id user) EMAIL) code ip s
          = (Inl (UnauthorizedException ''Invalid two-factor code''),
             audit_log \<lparr>al_userId = user_id user, al_action = ''2fa_verification_failed'',
                          al_method = Some ''google'', al_success = False,
                          al_ipAddress = ip\<rparr> s)"
    using vt vr by (simp add: login_verify2FA_def method_name_def)
  then show ?thesis
    using user account pw en token
    by (simp add: login_def truthy_def)
qed

lemma generateOTP_23456: "generateOTP 23456 = ''123456''"
  by (simp add: generateOTP_def randomInt_def num_eval)

lemma demo_both_login_facts:
  "findUserByIdentifier demo_both (dto_identifier (demo_dto tok)) = Some alice
   \<and> findAccount demo_both (user_id alice) = Some demo_account
   \<and> argon2_verify demo_lib (passwordHash demo_account) (dto_password (demo_dto tok))
   \<and> enabledFactor demo_both (user_id alice) TOTP = Some demo_totp
   \<and> enabledFactor demo_both (user_id alice) EMAIL = Some demo_email"
  using demo_login_facts [of demo_totp tok]
  by (simp add: demo_both_def findUserByIdentifier_def findAccount_def enabledFactor_def
        demo_totp_def demo_email_def alice_def)

lemma demo_challenge_issued:
  "login demo_lib demo_cfg 1000 23456 ''s'' (demo_dto None) None demo_both =
     (Inr (Requires2FA ''email''),
      snd (generateAndSendOTP demo_lib demo_cfg 1000 23456 ''s'' ''u1'' ''a@x.com'' demo_both))"
proof -
  have "fst (generateAndSendOTP demo_lib demo_cfg 1000 23456 ''s'' ''u1'' ''a@x.com'' demo_both)
          = Inr ()"
    by (simp add: generateAndSendOTP_def redis_get_def demo_both_def demo_world_def
          Let_def)
  then have g: "generateAndSendOTP demo_lib demo_cfg 1000 23456 ''s'' ''u1'' ''a@x.com'' demo_both
          = (Inr (), snd (generateAndSendOTP demo_lib demo_cfg 1000 23456 ''s'' ''u1'' ''a@x.com''
                            demo_both))"
    by (simp add: prod_eq_iff)
  have step: "login demo_lib demo_cfg 1000 23456 ''s'' (demo_dto None) None demo_both =
          (case generateAndSendOTP demo_lib demo_cfg 1000 23456 ''s'' ''u1'' ''a@x.com'' demo_both of
             (Inl e, s1) \<Rightarrow> (Inl e, s1)
           | (Inr _, s1) \<Rightarrow> (Inr (Requires2FA ''email''), s1))"
    using demo_both_login_facts [of None]
    by (simp add: login_def demo_dto_def truthy_def alice_def)
  have "(case generateAndSendOTP demo_lib demo_cfg 1000 23456 ''s'' ''u1'' ''a@x.com'' demo_both of
             (Inl e, s1) \<Rightarrow> (Inl e, s1)
           | (Inr _, s1) \<Rightarrow> (Inr (Requires2FA ''email''), s1))
        = (Inr (Requires2FA ''email''),
           snd (generateAndSendOTP demo_lib demo_cfg 1000 23456 ''s'' ''u1'' ''a@x.com'' demo_both))"
    by (subst g) simp
  with step show ?thesis by (rule trans)
qed

lemma demo_challenged_rows:
  "users demo_challenged = [alice] \<and> accounts demo_challenged = [demo_account]
   \<and> twoFactorAuths demo_challenged = [demo_totp, demo_email]
   \<and> emailOTPs demo_challenged =
        [\<lparr>otp_id = 1, otp_userId = ''u1'', otpHash = demo_hash ''123456'' ''s'',
          otp_attempts = 0, otp_expiresAt = 301000, otp_createdAt = 1000\<rparr>]
   \<and> redis demo_challenged ''otp:attempts:u1'' = None"
  unfolding demo_challenged_def demo_challenge_issued
  by (simp add: generateAndSendOTP_def redis_get_def redis_set_def sendOTPEmail_def
        Let_def generateOTP_23456 demo_both_def demo_world_def
        demo_account_def demo_lib_def demo_cfg_def)

section \<open>Facts about failed logins and the lockout counters\<close>

lemma login_wrong_password:
  assumes "findUserByIdentifier s (dto_identifier dto) = Some user"
    and "findAccount s (user_id user) = Some account"
    and "\<not> argon2_verify L (passwordHash account) (dto_password dto)"
  shows "login L cfg now r salt dto ip s =
           (Inl (UnauthorizedException ''Invalid credentials''),
            logLoginAttempt (dto_identifier dto) ip False s)"
  using assms by (simp add: login_def)

lemma login_without_second_factor:
  assumes "findUserByIdentifier s (dto_identifier dto) = Some user"
    and "findAccount s (user_id user) = Some account"
    and "argon2_verify L (passwordHash account) (dto_password dto)"
    and "enabledFactor s (user_id user) TOTP = None \<and> enabledFactor s (user_id user) EMAIL = None"
  shows "login L cfg now r salt dto ip s = login_issue L cfg now dto ip user account s"
  using assms by (simp add: login_def split: option.splits)

lemma demo_failed_rows:
  "users (demo_failed n) = [alice] \<and> accounts (demo_failed n) = [demo_account]
   \<and> twoFactorAuths (demo_failed n) = [] \<and> sessions (demo_failed n) = []
   \<and> redis (demo_failed n) = Map.empty
   \<and> map la_success (loginAttempts (demo_failed n)) = replicate n False"
proof (induction n)
  case 0
  show ?case by (simp add: demo_world_def demo_account_def)
next
  case (Suc n)
  have user: "findUserByIdentifier (demo_failed n) (dto_identifier demo_wrong_dto) = Some alice"
    using Suc by (simp add: findUserByIdentifier_def alice_def demo_wrong_dto_def)
  have account: "findAccount (demo_failed n) (user_id alice) = Some demo_account"
    using Suc by (simp add: findAccount_def alice_def demo_account_def)
  have wrong: "\<not> argon2_verify demo_lib (passwordHash demo_account) (dto_password demo_wrong_dto)"
    by (simp add: demo_lib_def demo_account_def demo_wrong_dto_def demo_hash_def demo_hash_verify_def)
  have "demo_failed (Suc n) =
          logLoginAttempt (dto_identifier demo_wrong_dto) (Some ''10.0.0.1'') False (demo_failed n)"
    by (simp add: login_wrong_password [OF user account wrong])
  then show ?case using Suc by (simp add: logLoginAttempt_def replicate_append_same)
qed

lemma num_toString_not_Nil: "0 \<le> n \<Longrightarrow> n < 9007199254740992 \<Longrightarrow> num_toString (Fin n) \<noteq> []"
  by (simp add: num_toString_small dec_not_Nil)

lemma demo_recorded_below:
  "0 < n \<Longrightarrow> n < 5 \<Longrightarrow>
   redis (demo_recorded n) =
     [''lockout:user:a@x.com'' \<mapsto> (num_toString (Fin (int n)), 900000 + 1000 * int n)]"
proof (induction n)
  case 0
  then show ?case by simp
next
  case (Suc n)
  show ?case
  proof (cases "n = 0")
    case True
    then show ?thesis
      by (simp add: recordFailedAttempt_def redis_get_def redis_set_def num_ge_def Let_def
            demo_cfg_def demo_world_def)
  next
    case False
    then have pos: "0 < n" by simp
    have below: "n < 5" using Suc.prems by simp
    note r = Suc.IH [OF pos below]
    have g: "redis_get (1000 + 1000 * int n) (demo_recorded n) ''lockout:user:a@x.com''
               = Some (num_toString (Fin (int n)))"
      by (simp add: redis_get_def r)
    have nn: "num_toString (Fin (int n)) \<noteq> []"
      using below by (simp add: num_toString_not_Nil)
    have pp: "parseInt (num_toString (Fin (int n))) = Fin (int n)"
      using below by (simp add: parseInt_toString_nonneg)
    have rr: "num_succ (Fin (int n)) = Fin (int (Suc n))"
      using below by (simp add: num_succ_def round_double_small add.commute)
    have small: "\<not> num_ge (Fin (int (Suc n))) (lockout_maxAttempts demo_cfg)"
      using Suc.prems by (simp add: num_ge_def demo_cfg_def)
    show ?thesis
      using small
      by (simp add: recordFailedAttempt_def g nn pp rr redis_set_def r Let_def
            del: of_nat_Suc)
         (auto simp: fun_eq_iff demo_cfg_def add.commute)
  qed
qed

lemma demo_recorded_5:
  "redis (demo_recorded 5) =
     [''lockout:user:a@x.com'' \<mapsto> (''5'', 905000),
      ''lockout:locked:a@x.com'' \<mapsto> (''locked'', 905000)]"
proof -
  have r: "redis (demo_recorded 4) = [''lockout:user:a@x.com'' \<mapsto> (num_toString (Fin 4), 904000)]"
    using demo_recorded_below [of 4] by simp
  have g: "redis_get 5000 (demo_recorded 4) ''lockout:user:a@x.com''
               = Some (num_toString (Fin 4))"
    by (simp add: redis_get_def r)
  have five: "demo_recorded 5 = recordFailedAttempt demo_cfg 5000 ''a@x.com'' None (demo_recorded 4)"
  proof -
    have "demo_recorded (Suc 4) =
            recordFailedAttempt demo_cfg (1000 + 1000 * int 4) ''a@x.com'' None (demo_recorded 4)"
      by (simp only: demo_recorded.simps)
    then show ?thesis by simp
  qed
  have s5: "num_toString (Fin 5) = ''5''" by (simp add: num_eval)
  have nn: "num_toString (Fin 4) \<noteq> []" by (simp add: num_toString_not_Nil)
  have pp: "parseInt (num_toString (Fin 4)) = Fin 4" by (simp add: parseInt_toString_nonneg)
  show ?thesis
    unfolding five
    by (simp add: recordFailedAttempt_def g nn pp
          lockAccount_def redis_set_def r Let_def num_succ_def num_ge_def demo_cfg_def s5
          round_double_small)
qed

lemma demo_recorded_rows:
  "users (demo_recorded n) = [alice] \<and> accounts (demo_recorded n) = [demo_account]
   \<and> twoFactorAuths (demo_recorded n) = []"
proof (induction n)
  case 0
  show ?case by (simp add: demo_world_def demo_account_def)
next
  case (Suc n)
  then show ?case
    by (simp add: recordFailedAttempt_def lockAccount_def redis_set_def Let_def)
qed

section \<open>Claims\<close>

text \<open>
  C9. The claim asks that every generated email code lies in 100000..999999 and that
  every value of that range can be generated. The code calls
  \<open>randomInt(100000, 999999)\<close>, whose upper bound is exclusive: every code is the
  decimal text of a number between 100000 and 999998, each of those is generated by
  some draw, and no draw generates 999999.
\<close>

theorem generateOTP_never_999999:
  "range generateOTP = (\<lambda>n. num_toString (Fin n)) ` {100000 .. 999998}
   \<and> num_toString (Fin 999999) \<notin> range generateOTP"
proof
  show "range generateOTP = (\<lambda>n. num_toString (Fin n)) ` {100000 .. 999998}"
  proof (intro set_eqI iffI)
    fix s
    assume "s \<in> range generateOTP"
    then obtain r where s: "s = generateOTP r" by auto
    have "100000 \<le> randomInt 100000 999999 r \<and> randomInt 100000 999999 r < 999999"
      by (rule randomInt_bounds) simp
    then have "randomInt 100000 999999 r \<in> {100000 .. 999998}" by simp
    then show "s \<in> (\<lambda>n. num_toString (Fin n)) ` {100000 .. 999998}"
      unfolding s generateOTP_def by (rule imageI)
  next
    fix s
    assume "s \<in> (\<lambda>n. num_toString (Fin n)) ` {100000 .. 999998}"
    then obtain n :: int where s: "s = num_toString (Fin n)" and n: "100000 \<le> n" "n \<le> 999998"
      by auto
    have "randomInt 100000 999999 (nat (n - 100000)) = n"
      using n by (intro randomInt_onto) auto
    then have "s = generateOTP (nat (n - 100000))"
      by (simp add: s generateOTP_def)
    then show "s \<in> range generateOTP" by (rule range_eqI)
  qed
next
  show "num_toString (Fin 999999) \<notin> range generateOTP"
  proof
    assume "num_toString (Fin 999999) \<in> range generateOTP"
    then obtain r where eq: "num_toString (Fin 999999) = generateOTP r" by auto
    have b: "100000 \<le> randomInt 100000 999999 r \<and> randomInt 100000 999999 r < 999999"
      by (rule randomInt_bounds) simp
    from eq have "parseInt (num_toString (Fin (randomInt 100000 999999 r)))
                 = parseInt (num_toString (Fin 999999))"
      by (simp add: generateOTP_def)
    then have "randomInt 100000 999999 r = 999999"
      using b by (simp add: parseInt_toString_nonneg)
    with b show False by simp
  qed
qed




text \<open>
  C8. A login whose identifier matches no user, or matches a user without an account, and
  a login whose identifier matches a user but whose password does not verify, both fail
  with the same error, \<open>UnauthorizedException\<close> with the message "Invalid credentials",
  and both append one failed login-attempt record (the identifier as submitted, the
  origin address) and change nothing else.
\<close>

theorem login_invalid_credentials_uniform:
  assumes absent: "findUserByIdentifier s1 (dto_identifier dto1) = None
                   \<or> (\<exists>u. findUserByIdentifier s1 (dto_identifier dto1) = Some u
                            \<and> findAccount s1 (user_id u) = None)"
    and present: "findUserByIdentifier s2 (dto_identifier dto2) = Some u2"
    and account: "findAccount s2 (user_id u2) = Some a2"
    and wrong: "\<not> argon2_verify L (passwordHash a2) (dto_password dto2)"
  shows "login L cfg now1 r1 salt1 dto1 ip1 s1 =
           (Inl (UnauthorizedException ''Invalid credentials''),
            s1\<lparr>loginAttempts := loginAttempts s1 @
                 [\<lparr>la_identifier = dto_identifier dto1, la_ipAddress = ip1, la_success = False\<rparr>]\<rparr>)
         \<and> login L cfg now2 r2 salt2 dto2 ip2 s2 =
           (Inl (UnauthorizedException ''Invalid credentials''),
            s2\<lparr>loginAttempts := loginAttempts s2 @
                 [\<lparr>la_identifier = dto_identifier dto2, la_ipAddress = ip2, la_success = False\<rparr>]\<rparr>)
         \<and> fst (login L cfg now1 r1 salt1 dto1 ip1 s1) = fst (login L cfg now2 r2 salt2 dto2 ip2 s2)"
proof -
  have one: "login L cfg now1 r1 salt1 dto1 ip1 s1 =
           (Inl (UnauthorizedException ''Invalid credentials''),
            s1\<lparr>loginAttempts := loginAttempts s1 @
                 [\<lparr>la_identifier = dto_identifier dto1, la_ipAddress = ip1, la_success = False\<rparr>]\<rparr>)"
    using absent by (auto simp: login_def logLoginAttempt_def)
  have two: "login L cfg now2 r2 salt2 dto2 ip2 s2 =
           (Inl (UnauthorizedException ''Invalid credentials''),
            s2\<lparr>loginAttempts := loginAttempts s2 @
                 [\<lparr>la_identifier = dto_identifier dto2, la_ipAddress = ip2, la_success = False\<rparr>]\<rparr>)"
    using present account wrong by (simp add: login_def logLoginAttempt_def)
  show ?thesis using one two by simp
qed

theorem login_invalid_credentials_uniform_witness:
  "login demo_lib demo_cfg 1000 0 ''s''
       \<lparr>dto_identifier = ''nobody'', dto_password = ''Secr3t!23'', twoFactorToken = None\<rparr>
       None demo_world =
     (Inl (UnauthorizedException ''Invalid credentials''),
      demo_world\<lparr>loginAttempts := loginAttempts demo_world @
         [\<lparr>la_identifier = ''nobody'', la_ipAddress = None, la_success = False\<rparr>]\<rparr>)
   \<and> login demo_lib demo_cfg 2000 0 ''s''
       \<lparr>dto_identifier = ''a@x.com'', dto_password = ''wrong'', twoFactorToken = None\<rparr>
       None demo_world =
     (Inl (UnauthorizedException ''Invalid credentials''),
      demo_world\<lparr>loginAttempts := loginAttempts demo_world @
         [\<lparr>la_identifier = ''a@x.com'', la_ipAddress = None, la_success = False\<rparr>]\<rparr>)"
proof -
  let ?d1 = "\<lparr>dto_identifier = ''nobody'', dto_password = ''Secr3t!23'', twoFactorToken = None\<rparr>"
  let ?d2 = "\<lparr>dto_identifier = ''a@x.com'', dto_password = ''wrong'', twoFactorToken = None\<rparr>"
  let ?acc = "\<lparr>account_id = ''acc1'', account_userId = ''u1'',
               passwordHash = demo_hash ''Secr3t!23'' ''salt'', lastLoginAt = None\<rparr>"
  have absent: "findUserByIdentifier demo_world (dto_identifier ?d1) = None
                \<or> (\<exists>u. findUserByIdentifier demo_world (dto_identifier ?d1) = Some u
                         \<and> findAccount demo_world (user_id u) = None)"
    by (simp add: findUserByIdentifier_def demo_world_def alice_def)
  have present: "findUserByIdentifier demo_world (dto_identifier ?d2) = Some alice"
    by (simp add: findUserByIdentifier_def demo_world_def alice_def)
  have account: "findAccount demo_world (user_id alice) = Some ?acc"
    by (simp add: findAccount_def demo_world_def alice_def)
  have wrong: "\<not> argon2_verify demo_lib (passwordHash ?acc) (dto_password ?d2)"
    by (simp add: demo_lib_def demo_hash_def demo_hash_verify_def)
  show ?thesis
    using login_invalid_credentials_uniform [OF absent present account wrong,
        of demo_cfg 1000 0 "''s''" None 2000 0 "''s''" None]
    by simp
qed

text \<open>
  C3. The claim says that the challenge names the method "totp". The code names the TOTP
  method "google" here, as it does in its audit records and in its controller. With that
  name the rest holds: for an account whose TOTP factor is enabled and which has no
  enabled EMAIL factor, a login with correct credentials and no second-factor token
  returns the challenge with method "google" and leaves the whole store, and so the
  sessions, unchanged; a login that submits a code that the time-step check accepts
  returns the user with a token pair and appends one session row for the new refresh
  token.
\<close>

theorem login_totp_challenge_then_tokens:
  assumes user: "findUserByIdentifier s (dto_identifier dto) = Some user"
    and account: "findAccount s (user_id user) = Some account"
    and pw: "argon2_verify L (passwordHash account) (dto_password dto)"
    and totp: "findTwoFactor s (user_id user) TOTP = Some t \<and> tfa_enabled t"
    and noemail: "enabledFactor s (user_id user) EMAIL = None"
    and notoken: "\<not> truthy (twoFactorToken dto)"
    and secret: "decrypt L (tfa_secret t) (twoFactor_encryptionKey cfg) = Inr secret"
    and code: "code \<noteq> [] \<and> totp_verify L secret code now2"
  shows "login L cfg now r salt dto ip s = (Inr (Requires2FA ''google''), s)
       \<and> fst (login L cfg now2 r2 salt2 (dto\<lparr>twoFactorToken := Some code\<rparr>) ip2 s)
           = Inr (LoginOk user (generateTokens L cfg now2 user))
       \<and> sessions (snd (login L cfg now2 r2 salt2 (dto\<lparr>twoFactorToken := Some code\<rparr>) ip2 s))
           = sessions s @
              [\<lparr>session_id = next_id s, session_userId = user_id user,
                session_token = refreshToken (generateTokens L cfg now2 user),
                session_expiresAt =
                  now2 + localTZA L now2 True + 7 * 86400000
                    - localTZA L (now2 + localTZA L now2 True + 7 * 86400000) False\<rparr>]"
proof -
  have en: "enabledFactor s (user_id user) TOTP = Some t"
    using totp by (simp add: enabledFactor_of_row)
  have first: "login L cfg now r salt dto ip s = (Inr (Requires2FA ''google''), s)"
    using user account pw en noemail notoken by (simp add: login_def)
  have vt: "verifyTOTP L cfg now2 (user_id user) code s = Inr True"
    using totp secret code by (simp add: verifyTOTP_def)
  have v2: "login_verify2FA L cfg now2 user (Some t) None code ip2 s =
      (Inr (), audit_log \<lparr>al_userId = user_id user, al_action = ''2fa_verified'',
                          al_method = Some ''google'', al_success = True,
                          al_ipAddress = ip2\<rparr> s)"
    using vt by (simp add: login_verify2FA_def method_name_def)
  have second: "login L cfg now2 r2 salt2 (dto\<lparr>twoFactorToken := Some code\<rparr>) ip2 s =
      login_issue L cfg now2 (dto\<lparr>twoFactorToken := Some code\<rparr>) ip2 user account
        (audit_log \<lparr>al_userId = user_id user, al_action = ''2fa_verified'',
                          al_method = Some ''google'', al_success = True,
                          al_ipAddress = ip2\<rparr> s)"
    using user account pw en noemail code v2 by (simp add: login_def truthy_def)
  show ?thesis
    using first second
    by (simp add: login_issue_result sessions_createSession logLoginAttempt_def audit_log_def)
qed

theorem login_totp_challenge_then_tokens_witness:
  "login demo_lib demo_cfg 1000 0 ''s'' (demo_dto None) None
       (demo_world\<lparr>twoFactorAuths := [demo_totp]\<rparr>)
     = (Inr (Requires2FA ''google''), demo_world\<lparr>twoFactorAuths := [demo_totp]\<rparr>)
   \<and> fst (login demo_lib demo_cfg 1000 0 ''s'' ((demo_dto None)\<lparr>twoFactorToken := Some ''226704''\<rparr>)
            None (demo_world\<lparr>twoFactorAuths := [demo_totp]\<rparr>))
     = Inr (LoginOk alice (generateTokens demo_lib demo_cfg 1000 alice))"
proof -
  let ?w = "demo_world\<lparr>twoFactorAuths := [demo_totp]\<rparr>"
  let ?acc = "\<lparr>account_id = ''acc1'', account_userId = ''u1'',
               passwordHash = demo_hash ''Secr3t!23'' ''salt'', lastLoginAt = None\<rparr>"
  have user: "findUserByIdentifier ?w (dto_identifier (demo_dto None)) = Some alice"
    by (simp add: findUserByIdentifier_def demo_world_def alice_def demo_dto_def)
  have account: "findAccount ?w (user_id alice) = Some ?acc"
    by (simp add: findAccount_def demo_world_def alice_def)
  have pw: "argon2_verify demo_lib (passwordHash ?acc) (dto_password (demo_dto None))"
    by (simp add: demo_lib_def demo_hash_def demo_hash_verify_def demo_dto_def)
  have totp: "findTwoFactor ?w (user_id alice) TOTP = Some demo_totp \<and> tfa_enabled demo_totp"
    by (simp add: findTwoFactor_def demo_totp_def alice_def)
  have noemail: "enabledFactor ?w (user_id alice) EMAIL = None"
    by (simp add: enabledFactor_def demo_totp_def alice_def)
  have notoken: "\<not> truthy (twoFactorToken (demo_dto None))"
    by (simp add: truthy_def demo_dto_def)
  have secret: "decrypt demo_lib (tfa_secret demo_totp) (twoFactor_encryptionKey demo_cfg)
                  = Inr demo_secret"
    using demo_decrypt by (simp add: demo_totp_def demo_cfg_def)
  have ok: "demo_totp_verify demo_secret ''226704'' 1000"
    by (simp add: demo_totp_verify_def demo_code_def demo_secret_def num_eval)
  have code: "''226704'' \<noteq> [] \<and> totp_verify demo_lib demo_secret ''226704'' 1000"
    using ok by (simp add: demo_lib_def)
  show ?thesis
    using login_totp_challenge_then_tokens [OF user account pw totp noemail notoken secret code,
        of 1000 0 "''s''" None 0 "''s''" None]
    by simp
qed

theorem login_totp_method_counterexample:
  "fst (login demo_lib demo_cfg 1000 0 ''s'' (demo_dto None) None
          (demo_world\<lparr>twoFactorAuths := [demo_totp]\<rparr>))
     = Inr (Requires2FA ''google'')
   \<and> fst (login demo_lib demo_cfg 1000 0 ''s'' (demo_dto None) None
          (demo_world\<lparr>twoFactorAuths := [demo_totp]\<rparr>))
     \<noteq> Inr (Requires2FA ''totp'')"
  by code_simp




text \<open>
  C10. The claim says that a session expires exactly seven days, \<open>7 * 24 * 60 * 60 *
  1000\<close> milliseconds, after its creation. \<open>createSession\<close> moves the local calendar
  date by seven days: across a change of the clock of the process's time zone the
  session expires earlier or later than that, by the change of the offset. In
  Europe/Berlin a session created on 28 March 2024 at 12:00 UTC expires after seven days
  less one hour.

  What holds: \<open>createSession\<close> reads \<open>jwt.refreshExpiresIn\<close> and does not use it, its
  result does not change with that setting; every successful \<open>register\<close>, \<open>login\<close>
  and \<open>refreshTokens\<close> appends one session row that holds the new refresh token and
  expires at the same local time of day seven calendar days later; and that is exactly
  \<open>7 * 24 * 60 * 60 * 1000\<close> milliseconds after the call when the offset of the zone
  from UTC is then what it was at the call, as it always is in a zone without clock
  changes such as Asia/Jakarta of \<open>ecosystem.config.js\<close>.
\<close>

theorem session_expiry_seven_days:
  "createSession L (cfg\<lparr>jwt_refreshExpiresIn := lifetime\<rparr>) now userId token s
     = createSession L cfg now userId token s
   \<and> (register L cfg now newUserId newAccountId salt rdto s = (Inr (u1, t1), s1)
      \<longrightarrow> sessions s1 = sessions s @
            [\<lparr>session_id = next_id s, session_userId = user_id u1,
              session_token = refreshToken t1,
              session_expiresAt =
                now + localTZA L now True + 7 * 86400000
                - localTZA L (now + localTZA L now True + 7 * 86400000) False\<rparr>])
   \<and> (login L cfg now r salt ldto ip s = (Inr (LoginOk u2 t2), s2)
      \<longrightarrow> sessions s2 = sessions s @
            [\<lparr>session_id = next_id s, session_userId = user_id u2,
              session_token = refreshToken t2,
              session_expiresAt =
                now + localTZA L now True + 7 * 86400000
                - localTZA L (now + localTZA L now True + 7 * 86400000) False\<rparr>])
   \<and> (refreshTokens L cfg now token s = (Inr t3, s3)
      \<longrightarrow> (\<exists>old u3. sessions s3 =
            filter (\<lambda>row. session_id row \<noteq> old) (sessions s) @
            [\<lparr>session_id = next_id s, session_userId = u3,
              session_token = refreshToken t3,
              session_expiresAt =
                now + localTZA L now True + 7 * 86400000
                - localTZA L (now + localTZA L now True + 7 * 86400000) False\<rparr>]))
   \<and> (localTZA L (now + localTZA L now True + 7 * 86400000) False = localTZA L now True
      \<longrightarrow> sessions (createSession L cfg now userId token s) = sessions s @
            [\<lparr>session_id = next_id s, session_userId = userId, session_token = token,
              session_expiresAt = now + 7 * 24 * 60 * 60 * 1000\<rparr>])"
proof (intro conjI impI)
  show "createSession L (cfg\<lparr>jwt_refreshExpiresIn := lifetime\<rparr>) now userId token s
     = createSession L cfg now userId token s"
    by (simp add: createSession_def)
next
  assume "register L cfg now newUserId newAccountId salt rdto s = (Inr (u1, t1), s1)"
  from register_success_sessions [OF this]
  show "sessions s1 = sessions s @
            [\<lparr>session_id = next_id s, session_userId = user_id u1,
              session_token = refreshToken t1,
              session_expiresAt =
                now + localTZA L now True + 7 * 86400000
                - localTZA L (now + localTZA L now True + 7 * 86400000) False\<rparr>]"
    by simp
next
  assume "login L cfg now r salt ldto ip s = (Inr (LoginOk u2 t2), s2)"
  from login_success_sessions [OF this]
  show "sessions s2 = sessions s @
            [\<lparr>session_id = next_id s, session_userId = user_id u2,
              session_token = refreshToken t2,
              session_expiresAt =
                now + localTZA L now True + 7 * 86400000
                - localTZA L (now + localTZA L now True + 7 * 86400000) False\<rparr>]"
    by simp
next
  assume "refreshTokens L cfg now token s = (Inr t3, s3)"
  from refreshTokens_success_sessions [OF this]
  show "\<exists>old u3. sessions s3 =
            filter (\<lambda>row. session_id row \<noteq> old) (sessions s) @
            [\<lparr>session_id = next_id s, session_userId = u3,
              session_token = refreshToken t3,
              session_expiresAt =
                now + localTZA L now True + 7 * 86400000
                - localTZA L (now + localTZA L now True + 7 * 86400000) False\<rparr>]"
    by simp
next
  assume "localTZA L (now + localTZA L now True + 7 * 86400000) False = localTZA L now True"
  then show "sessions (createSession L cfg now userId token s) = sessions s @
            [\<lparr>session_id = next_id s, session_userId = userId, session_token = token,
              session_expiresAt = now + 7 * 24 * 60 * 60 * 1000\<rparr>]"
    by (simp add: sessions_createSession)
qed

theorem session_expiry_seven_days_witness:
  "sessions (snd (register demo_lib demo_cfg 1000 ''u2'' ''acc2'' ''salt2'' bob_dto demo_world))
     = [\<lparr>session_id = 1, session_userId = ''u2'',
         session_token = refreshToken (generateTokens demo_lib demo_cfg 1000
              \<lparr>user_id = ''u2'', user_name = ''Bob'', user_username = ''b'',
                user_email = ''b@x.com'', user_image = None, user_role = USER\<rparr>),
         session_expiresAt = 1000 + 7 * 24 * 60 * 60 * 1000\<rparr>]
   \<and> sessions (snd (login demo_lib demo_cfg 1000 0 ''s'' (demo_dto None) None demo_world))
     = [\<lparr>session_id = 1, session_userId = ''u1'',
         session_token = refreshToken (generateTokens demo_lib demo_cfg 1000 alice),
         session_expiresAt = 1000 + 7 * 24 * 60 * 60 * 1000\<rparr>]
   \<and> (\<exists>old u3. sessions (snd (refreshTokens demo_lib demo_cfg 5000 ''k2.u1.7d.1''
                        (demo_world\<lparr>sessions := [demo_session]\<rparr>)))
     = filter (\<lambda>row. session_id row \<noteq> old) [demo_session] @
         [\<lparr>session_id = 1, session_userId = u3,
           session_token = refreshToken (generateTokens demo_lib demo_cfg 5000 alice),
           session_expiresAt = 5000 + 7 * 24 * 60 * 60 * 1000\<rparr>])
   \<and> sessions (createSession demo_lib demo_cfg 1000 ''u1'' ''t'' demo_world)
     = [\<lparr>session_id = 1, session_userId = ''u1'', session_token = ''t'',
         session_expiresAt = 1000 + 7 * 24 * 60 * 60 * 1000\<rparr>]
   \<and> createSession demo_lib (demo_cfg\<lparr>jwt_refreshExpiresIn := ''30d''\<rparr>) 1000 ''u1'' ''t'' demo_world
     = createSession demo_lib demo_cfg 1000 ''u1'' ''t'' demo_world"
proof -
  let ?bob = "\<lparr>user_id = ''u2'', user_name = ''Bob'', user_username = ''b'',
                user_email = ''b@x.com'', user_image = None, user_role = USER\<rparr>"
  let ?reg = "register demo_lib demo_cfg 1000 ''u2'' ''acc2'' ''salt2'' bob_dto demo_world"
  let ?log = "login demo_lib demo_cfg 1000 0 ''s'' (demo_dto None) None demo_world"
  let ?ws = "demo_world\<lparr>sessions := [demo_session]\<rparr>"
  let ?ref = "refreshTokens demo_lib demo_cfg 5000 ''k2.u1.7d.1'' ?ws"
  have "fst ?reg = Inr (?bob, generateTokens demo_lib demo_cfg 1000 ?bob)"
    by (simp add: register_def demo_world_def alice_def bob_dto_def Let_def)
  then have reg: "?reg = (Inr (?bob, generateTokens demo_lib demo_cfg 1000 ?bob), snd ?reg)"
    by (simp add: prod_eq_iff)
  have "fst ?log = Inr (LoginOk alice (generateTokens demo_lib demo_cfg 1000 alice))"
    by (simp add: login_def findUserByIdentifier_def findAccount_def enabledFactor_def
          demo_world_def alice_def demo_dto_def demo_lib_def demo_hash_def demo_hash_verify_def
          truthy_def login_issue_result)
  then have log: "?log = (Inr (LoginOk alice (generateTokens demo_lib demo_cfg 1000 alice)), snd ?log)"
    by (simp add: prod_eq_iff)
  have "fst ?ref = Inr (generateTokens demo_lib demo_cfg 5000 alice)"
    using demo_jwt_verify_session
    by (simp add: refreshTokens_def refreshTokens_try_def demo_session_def demo_world_def
          alice_def Let_def)
  then have ref: "?ref = (Inr (generateTokens demo_lib demo_cfg 5000 alice), snd ?ref)"
    by (simp add: prod_eq_iff)
  have zone: "localTZA demo_lib (1000 + localTZA demo_lib 1000 True + 7 * 86400000) False
                = localTZA demo_lib 1000 True"
    by (simp add: demo_zone_same)
  note t = session_expiry_seven_days [where L = demo_lib and cfg = demo_cfg]
  from t [where s = demo_world and now = 1000] reg
  have a: "sessions (snd ?reg) = sessions demo_world @
         [\<lparr>session_id = next_id demo_world, session_userId = user_id ?bob,
           session_token = refreshToken (generateTokens demo_lib demo_cfg 1000 ?bob),
           session_expiresAt =
                1000 + localTZA demo_lib 1000 True + 7 * 86400000
                - localTZA demo_lib (1000 + localTZA demo_lib 1000 True + 7 * 86400000) False\<rparr>]"
    by blast
  from t [where s = demo_world and now = 1000] log
  have b: "sessions (snd ?log) = sessions demo_world @
         [\<lparr>session_id = next_id demo_world, session_userId = user_id alice,
           session_token = refreshToken (generateTokens demo_lib demo_cfg 1000 alice),
           session_expiresAt =
                1000 + localTZA demo_lib 1000 True + 7 * 86400000
                - localTZA demo_lib (1000 + localTZA demo_lib 1000 True + 7 * 86400000) False\<rparr>]"
    by blast
  from t [where s = ?ws and now = 5000] ref
  have c: "\<exists>old u3. sessions (snd ?ref)
     = filter (\<lambda>row. session_id row \<noteq> old) (sessions ?ws) @
         [\<lparr>session_id = next_id ?ws, session_userId = u3,
           session_token = refreshToken (generateTokens demo_lib demo_cfg 5000 alice),
           session_expiresAt =
                5000 + localTZA demo_lib 5000 True + 7 * 86400000
                - localTZA demo_lib (5000 + localTZA demo_lib 5000 True + 7 * 86400000) False\<rparr>]"
    by blast
  from t [where s = demo_world and now = 1000 and userId = "''u1''" and token = "''t''"] zone
  have d: "sessions (createSession demo_lib demo_cfg 1000 ''u1'' ''t'' demo_world) = sessions demo_world @
            [\<lparr>session_id = next_id demo_world, session_userId = ''u1'', session_token = ''t'',
              session_expiresAt = 1000 + 7 * 24 * 60 * 60 * 1000\<rparr>]"
    by blast
  from t [where s = demo_world and now = 1000 and userId = "''u1''" and token = "''t''"
      and lifetime = "''30d''"]
  have e: "createSession demo_lib (demo_cfg\<lparr>jwt_refreshExpiresIn := ''30d''\<rparr>) 1000 ''u1'' ''t'' demo_world
     = createSession demo_lib demo_cfg 1000 ''u1'' ''t'' demo_world"
    by blast
  have a': "sessions (snd ?reg) = [\<lparr>session_id = 1, session_userId = ''u2'',
         session_token = refreshToken (generateTokens demo_lib demo_cfg 1000 ?bob),
         session_expiresAt = 1000 + 7 * 24 * 60 * 60 * 1000\<rparr>]"
    unfolding a by (simp add: demo_zone_same demo_world_def)
  have b': "sessions (snd ?log) = [\<lparr>session_id = 1, session_userId = ''u1'',
         session_token = refreshToken (generateTokens demo_lib demo_cfg 1000 alice),
         session_expiresAt = 1000 + 7 * 24 * 60 * 60 * 1000\<rparr>]"
    unfolding b by (simp add: demo_zone_same demo_world_def alice_def)
  from c have c': "\<exists>old u3. sessions (snd ?ref)
     = filter (\<lambda>row. session_id row \<noteq> old) [demo_session] @
         [\<lparr>session_id = 1, session_userId = u3,
           session_token = refreshToken (generateTokens demo_lib demo_cfg 5000 alice),
           session_expiresAt = 5000 + 7 * 24 * 60 * 60 * 1000\<rparr>]"
    by (simp add: demo_zone_same demo_world_def)
  have d': "sessions (createSession demo_lib demo_cfg 1000 ''u1'' ''t'' demo_world)
     = [\<lparr>session_id = 1, session_userId = ''u1'', session_token = ''t'',
         session_expiresAt = 1000 + 7 * 24 * 60 * 60 * 1000\<rparr>]"
    unfolding d by (simp add: demo_world_def)
  from a' b' c' d' e show ?thesis by blast
qed

theorem session_expiry_clock_change_counterexample:
  "sessions (snd (login demo_berlin_lib demo_cfg 1711627200000 0 ''s'' (demo_dto None) None
                    demo_world))
     = [\<lparr>session_id = 1, session_userId = ''u1'',
         session_token = refreshToken (generateTokens demo_berlin_lib demo_cfg 1711627200000 alice),
         session_expiresAt = 1711627200000 + 7 * 24 * 60 * 60 * 1000 - 3600000\<rparr>]"
proof -
  have pw: "argon2_verify demo_berlin_lib (passwordHash demo_account) (dto_password (demo_dto None))"
    using demo_login_facts [of demo_totp None] by (simp add: demo_berlin_lib_def demo_lib_def)
  have user: "findUserByIdentifier demo_world (dto_identifier (demo_dto None)) = Some alice"
    by (simp add: findUserByIdentifier_def alice_def demo_dto_def demo_world_def)
  have account: "findAccount demo_world (user_id alice) = Some demo_account"
    by (simp add: findAccount_def alice_def demo_account_def demo_world_def)
  have none: "enabledFactor demo_world (user_id alice) TOTP = None
              \<and> enabledFactor demo_world (user_id alice) EMAIL = None"
    by (simp add: enabledFactor_def demo_world_def)
  show ?thesis
    by (simp add: login_without_second_factor [OF user account pw none] sessions_login_issue)
       (simp add: demo_berlin_lib_def demo_berlin_zone_def demo_world_def alice_def)
qed

text \<open>
  C4. The claim says that after a successful refresh the presented token matches no
  session row. \<open>refreshTokens\<close> deletes the row it found and appends a row for the
  token it signs anew from the same payload; the \<open>iat\<close> and \<open>exp\<close> claims of a JWT
  are whole seconds, so a refresh within the second in which the presented token was
  issued signs the same token again. Evaluated: a login at 1000 ms issues a refresh
  token; a refresh with it at 1500 ms returns the same token and the session table
  still holds it; a further refresh with it at 1900 ms succeeds again. A refresh in a
  later second rotates as claimed: the new token differs, the table holds only the new
  one, and the old token is then refused with "Invalid refresh token", as is a token
  that does not verify.
\<close>

theorem refreshTokens_same_second_keeps_token:
  "fst (login demo_lib demo_cfg 1000 0 ''s'' (demo_dto None) None demo_world)
     = Inr (LoginOk alice \<lparr>accessToken = ''k1.u1.15m.1'', refreshToken = ''k2.u1.7d.1''\<rparr>)
   \<and> map session_token (sessions demo_after_login) = [''k2.u1.7d.1'']
   \<and> fst (refreshTokens demo_lib demo_cfg 1500 ''k2.u1.7d.1'' demo_after_login)
       = Inr \<lparr>accessToken = ''k1.u1.15m.1'', refreshToken = ''k2.u1.7d.1''\<rparr>
   \<and> map session_token (sessions demo_after_refresh) = [''k2.u1.7d.1'']
   \<and> fst (refreshTokens demo_lib demo_cfg 1900 ''k2.u1.7d.1'' demo_after_refresh)
       = Inr \<lparr>accessToken = ''k1.u1.15m.1'', refreshToken = ''k2.u1.7d.1''\<rparr>
   \<and> fst (refreshTokens demo_lib demo_cfg 5000 ''k2.u1.7d.1'' demo_after_login)
       = Inr \<lparr>accessToken = ''k1.u1.15m.5'', refreshToken = ''k2.u1.7d.5''\<rparr>
   \<and> map session_token
         (sessions (snd (refreshTokens demo_lib demo_cfg 5000 ''k2.u1.7d.1'' demo_after_login)))
       = [''k2.u1.7d.5'']
   \<and> fst (refreshTokens demo_lib demo_cfg 6000 ''k2.u1.7d.1''
            (snd (refreshTokens demo_lib demo_cfg 5000 ''k2.u1.7d.1'' demo_after_login)))
       = Inl (UnauthorizedException ''Invalid refresh token'')
   \<and> fst (refreshTokens demo_lib demo_cfg 5000 ''bogus'' demo_after_login)
       = Inl (UnauthorizedException ''Invalid refresh token'')"
proof -
  have pw: "argon2_verify demo_lib (passwordHash demo_account) (dto_password (demo_dto None))"
    using demo_login_facts [of demo_totp None] by simp
  have user: "findUserByIdentifier demo_world (dto_identifier (demo_dto None)) = Some alice"
    by (simp add: findUserByIdentifier_def alice_def demo_dto_def demo_world_def)
  have account: "findAccount demo_world (user_id alice) = Some demo_account"
    by (simp add: findAccount_def alice_def demo_account_def demo_world_def)
  have none: "enabledFactor demo_world (user_id alice) TOTP = None
              \<and> enabledFactor demo_world (user_id alice) EMAIL = None"
    by (simp add: enabledFactor_def demo_world_def)
  have a: "fst (login demo_lib demo_cfg 1000 0 ''s'' (demo_dto None) None demo_world)
     = Inr (LoginOk alice \<lparr>accessToken = ''k1.u1.15m.1'', refreshToken = ''k2.u1.7d.1''\<rparr>)"
    by (simp add: login_without_second_factor [OF user account pw none] login_issue_result
          demo_tokens_1000)
  have b: "map session_token (sessions demo_after_login) = [''k2.u1.7d.1'']"
    using demo_after_login_rows by simp
  have c: "fst (refreshTokens demo_lib demo_cfg 1500 ''k2.u1.7d.1'' demo_after_login)
       = Inr \<lparr>accessToken = ''k1.u1.15m.1'', refreshToken = ''k2.u1.7d.1''\<rparr>"
    by (simp add: demo_refresh_1500)
  have d: "map session_token (sessions demo_after_refresh) = [''k2.u1.7d.1'']"
    using demo_after_refresh_rows by simp
  have v: "jwt_verify demo_lib ''k2.u1.7d.1'' (jwt_refreshSecret demo_cfg) 1900 =
     Some \<lparr>jwt_sub = ''u1'', jwt_email = [], jwt_username = [], jwt_role = USER\<rparr>"
    using demo_jwt_verify_k2 [of 1900] by (simp add: demo_lib_def demo_cfg_def)
  have e: "fst (refreshTokens demo_lib demo_cfg 1900 ''k2.u1.7d.1'' demo_after_refresh)
       = Inr \<lparr>accessToken = ''k1.u1.15m.1'', refreshToken = ''k2.u1.7d.1''\<rparr>"
    using v demo_after_refresh_rows demo_tokens_1900
    by (simp add: refreshTokens_def refreshTokens_try_def Let_def alice_def)
  have f: "fst (refreshTokens demo_lib demo_cfg 5000 ''k2.u1.7d.1'' demo_after_login)
       = Inr \<lparr>accessToken = ''k1.u1.15m.5'', refreshToken = ''k2.u1.7d.5''\<rparr>"
    by (simp add: demo_refresh_5000)
  have g: "map session_token
         (sessions (snd (refreshTokens demo_lib demo_cfg 5000 ''k2.u1.7d.1'' demo_after_login)))
       = [''k2.u1.7d.5'']"
    by (simp add: demo_refresh_5000 sessions_createSession)
  have "\<forall>row \<in> set (sessions (snd (refreshTokens demo_lib demo_cfg 5000 ''k2.u1.7d.1''
                                        demo_after_login))).
          session_token row = ''k2.u1.7d.1'' \<longrightarrow> session_expiresAt row \<le> 6000"
    by (simp add: demo_refresh_5000 sessions_createSession)
  then have h: "fst (refreshTokens demo_lib demo_cfg 6000 ''k2.u1.7d.1''
            (snd (refreshTokens demo_lib demo_cfg 5000 ''k2.u1.7d.1'' demo_after_login)))
       = Inl (UnauthorizedException ''Invalid refresh token'')"
    by (simp add: refreshTokens_no_session)
  have "jwt_verify demo_lib ''bogus'' (jwt_refreshSecret demo_cfg) 5000 = None"
    by (simp add: demo_lib_def demo_jwt_verify_def)
  then have i: "fst (refreshTokens demo_lib demo_cfg 5000 ''bogus'' demo_after_login)
       = Inl (UnauthorizedException ''Invalid refresh token'')"
    by (simp add: refreshTokens_def refreshTokens_try_def)
  from a b c d e f g h i show ?thesis by blast
qed

text \<open>
  C6. The loop of \<open>verifyRecoveryCode\<close> removes the strings equal to the first stored
  hash that verifies. The stored set holds salted hashes, and the ten codes are drawn
  without a check for repeats, so two stored hashes can verify against one code; then a
  second login with that code succeeds again. With the code stored once the claim holds,
  for a login that reaches the recovery-code check: for an identity with an enabled TOTP
  factor whose stored secret decrypts under the configured key, whose time-step check
  accepts the code at neither login, and whose stored list holds exactly one hash that
  verifies against the code, the first login with correct credentials and that code
  succeeds and the stored list becomes the list without that hash, and a second login
  with the same code fails with \<open>UnauthorizedException\<close> "Invalid two-factor code".
\<close>

theorem recovery_code_single_use:
  assumes user: "findUserByIdentifier s (dto_identifier dto) = Some user"
    and account: "findAccount s (user_id user) = Some account"
    and pw: "argon2_verify L (passwordHash account) (dto_password dto)"
    and totp: "findTwoFactor s (user_id user) TOTP = Some t \<and> tfa_enabled t"
    and codes: "recoveryCodes t = Some codes"
    and stored: "h \<in> set codes \<and> argon2_verify L h code"
    and once: "\<forall>h' \<in> set codes. argon2_verify L h' code \<longrightarrow> h' = h"
    and secret: "decrypt L (tfa_secret t) (twoFactor_encryptionKey cfg) = Inr secret"
    and nototp: "\<not> totp_verify L secret code nowA \<and> \<not> totp_verify L secret code nowB"
    and token: "twoFactorToken dto = Some code \<and> code \<noteq> []"
  shows "fst (login L cfg nowA rA saltA dto ipA s)
           = Inr (LoginOk user (generateTokens L cfg nowA user))
       \<and> findTwoFactor (snd (login L cfg nowA rA saltA dto ipA s)) (user_id user) TOTP
           = Some (t\<lparr>recoveryCodes := Some (filter (\<lambda>c. c \<noteq> h) codes)\<rparr>)
       \<and> fst (login L cfg nowB rB saltB dto ipB (snd (login L cfg nowA rA saltA dto ipA s)))
           = Inl (UnauthorizedException ''Invalid two-factor code'')"
proof -
  let ?uid = "user_id user"
  let ?t' = "t\<lparr>recoveryCodes := Some (filter (\<lambda>c. c \<noteq> h) codes)\<rparr>"
  let ?src = "s\<lparr>twoFactorAuths :=
                  update_first (\<lambda>a. tfa_userId a = ?uid \<and> tfa_type a = TOTP)
                    (\<lambda>a. a\<lparr>recoveryCodes := Some (filter (\<lambda>c. c \<noteq> h) codes)\<rparr>)
                    (twoFactorAuths s)\<rparr>"
  let ?mid = "audit_log \<lparr>al_userId = ?uid, al_action = ''2fa_verified'',
                          al_method = Some ''google'', al_success = True, al_ipAddress = ipA\<rparr>
               (audit_log \<lparr>al_userId = ?uid, al_action = ''2fa_recovery_code_used'',
                            al_method = Some ''recovery'', al_success = True,
                            al_ipAddress = ipA\<rparr> ?src)"
  let ?s1 = "snd (login L cfg nowA rA saltA dto ipA s)"
  have en: "enabledFactor s ?uid TOTP = Some t"
    using totp by (simp add: enabledFactor_of_row)
  have vt1: "verifyTOTP L cfg nowA ?uid code s = Inr False"
    using totp secret nototp by (simp add: verifyTOTP_def)
  from stored obtain y where y: "find (\<lambda>hashedCode. argon2_verify L hashedCode code) codes = Some y"
    "argon2_verify L y code" "y \<in> set codes"
    using find_first_match [of h codes "\<lambda>hashedCode. argon2_verify L hashedCode code"] by blast
  with once have yh: "y = h" by blast
  have vr1: "verifyRecoveryCode L ?uid code s = (True, ?src)"
    using totp codes y(1) yh by (simp add: verifyRecoveryCode_def)
  have first: "login L cfg nowA rA saltA dto ipA s = login_issue L cfg nowA dto ipA user account ?mid"
    using login_recovery_accepted [OF user account pw en token vt1 vr1] by simp
  have res1: "fst (login L cfg nowA rA saltA dto ipA s)
           = Inr (LoginOk user (generateTokens L cfg nowA user))"
    by (simp add: first login_issue_result)
  have users1: "users ?s1 = users s"
    by (simp add: first login_issue_result createSession_def Let_def logLoginAttempt_def
          audit_log_def)
  have tfa1: "twoFactorAuths ?s1 =
                update_first (\<lambda>a. tfa_userId a = ?uid \<and> tfa_type a = TOTP)
                    (\<lambda>a. a\<lparr>recoveryCodes := Some (filter (\<lambda>c. c \<noteq> h) codes)\<rparr>)
                    (twoFactorAuths s)"
    by (simp add: first login_issue_result createSession_def Let_def logLoginAttempt_def
          audit_log_def)
  have acc1: "accounts ?s1 =
                update_first (\<lambda>a. account_id a = account_id account)
                    (\<lambda>a. a\<lparr>lastLoginAt := Some nowA\<rparr>) (accounts s)"
    by (simp add: first login_issue_result createSession_def Let_def logLoginAttempt_def
          audit_log_def)
  have user2: "findUserByIdentifier ?s1 (dto_identifier dto) = Some user"
    using user by (simp add: findUserByIdentifier_def users1)
  have "findAccount ?s1 ?uid = Some account
        \<or> findAccount ?s1 ?uid = Some (account\<lparr>lastLoginAt := Some nowA\<rparr>)"
    unfolding findAccount_def acc1
    by (rule find_update_first_other) (use account in \<open>simp_all add: findAccount_def\<close>)
  then obtain account2 where account2: "findAccount ?s1 ?uid = Some account2"
    and hash2: "passwordHash account2 = passwordHash account"
    by auto
  have pw2: "argon2_verify L (passwordHash account2) (dto_password dto)"
    using pw hash2 by simp
  have row2: "findTwoFactor ?s1 ?uid TOTP = Some ?t'"
    unfolding findTwoFactor_def tfa1
    by (rule find_update_first_same) (use totp in \<open>auto simp: findTwoFactor_def dest: find_SomeD\<close>)
  have en2: "enabledFactor ?s1 ?uid TOTP = Some ?t'"
    using row2 totp by (simp add: enabledFactor_of_row)
  have vt2: "verifyTOTP L cfg nowB ?uid code ?s1 = Inr False"
    using row2 totp secret nototp by (simp add: verifyTOTP_def)
  have "find (\<lambda>hashedCode. argon2_verify L hashedCode code) (filter (\<lambda>c. c \<noteq> h) codes) = None"
    using once by (auto simp: find_None_iff)
  then have vr2: "verifyRecoveryCode L ?uid code ?s1 = (False, ?s1)"
    using row2 totp by (simp add: verifyRecoveryCode_def)
  have res2: "fst (login L cfg nowB rB saltB dto ipB ?s1)
           = Inl (UnauthorizedException ''Invalid two-factor code'')"
    by (rule login_second_factor_rejected [OF user2 account2 pw2 en2 token vt2 vr2])
  from res1 row2 res2 show ?thesis by simp
qed

theorem recovery_code_single_use_witness:
  "fst (login demo_lib demo_cfg 1000 0 ''s'' (demo_dto (Some ''ABCD1234'')) None
          (demo_world\<lparr>twoFactorAuths := [demo_totp]\<rparr>))
     = Inr (LoginOk alice (generateTokens demo_lib demo_cfg 1000 alice))
   \<and> findTwoFactor
        (snd (login demo_lib demo_cfg 1000 0 ''s'' (demo_dto (Some ''ABCD1234'')) None
                (demo_world\<lparr>twoFactorAuths := [demo_totp]\<rparr>))) (user_id alice) TOTP
     = Some (demo_totp\<lparr>recoveryCodes := Some [demo_hash ''0F0F0F0F'' ''r2'']\<rparr>)
   \<and> fst (login demo_lib demo_cfg 2000 0 ''s'' (demo_dto (Some ''ABCD1234'')) None
          (snd (login demo_lib demo_cfg 1000 0 ''s'' (demo_dto (Some ''ABCD1234'')) None
                  (demo_world\<lparr>twoFactorAuths := [demo_totp]\<rparr>))))
     = Inl (UnauthorizedException ''Invalid two-factor code'')"
proof -
  let ?w = "demo_world\<lparr>twoFactorAuths := [demo_totp]\<rparr>"
  let ?dto = "demo_dto (Some ''ABCD1234'')"
  let ?codes = "[demo_hash ''ABCD1234'' ''r1'', demo_hash ''0F0F0F0F'' ''r2'']"
  let ?h = "demo_hash ''ABCD1234'' ''r1''"
  note facts = demo_login_facts [of demo_totp "Some ''ABCD1234''"]
  have user: "findUserByIdentifier ?w (dto_identifier ?dto) = Some alice" using facts by simp
  have account: "findAccount ?w (user_id alice) = Some demo_account" using facts by simp
  have pw: "argon2_verify demo_lib (passwordHash demo_account) (dto_password ?dto)"
    using facts by simp
  have totp: "findTwoFactor ?w (user_id alice) TOTP = Some demo_totp \<and> tfa_enabled demo_totp"
    by (simp add: findTwoFactor_def demo_totp_def alice_def)
  have codes: "recoveryCodes demo_totp = Some ?codes"
    by (simp add: demo_totp_def)
  have stored: "?h \<in> set ?codes \<and> argon2_verify demo_lib ?h ''ABCD1234''"
    by (simp add: demo_lib_def demo_hash_def demo_hash_verify_def)
  have once: "\<forall>h' \<in> set ?codes. argon2_verify demo_lib h' ''ABCD1234'' \<longrightarrow> h' = ?h"
    by (simp add: demo_lib_def demo_hash_def demo_hash_verify_def)
  have secret: "decrypt demo_lib (tfa_secret demo_totp) (twoFactor_encryptionKey demo_cfg)
                  = Inr demo_secret"
    using demo_decrypt by (simp add: demo_totp_def demo_cfg_def)
  have token: "twoFactorToken ?dto = Some ''ABCD1234'' \<and> ''ABCD1234'' \<noteq> []"
    using facts by simp
  have filt: "filter (\<lambda>c. c \<noteq> ?h) ?codes = [demo_hash ''0F0F0F0F'' ''r2'']"
    by (simp add: demo_hash_def)
  show ?thesis
    using recovery_code_single_use [OF user account pw totp codes stored once secret
        demo_no_totp_match token,
        where rA = 0 and saltA = "''s''" and ipA = None and rB = 0 and saltB = "''s''" and ipB = None]
    by (simp only: filt)
qed

theorem recovery_code_single_use_counterexample:
  "fst (login demo_lib demo_cfg 1000 0 ''s'' (demo_dto (Some ''ABCD1234'')) None
          (demo_world\<lparr>twoFactorAuths := [demo_totp_dup]\<rparr>))
     = Inr (LoginOk alice (generateTokens demo_lib demo_cfg 1000 alice))
   \<and> fst (login demo_lib demo_cfg 2000 0 ''s'' (demo_dto (Some ''ABCD1234'')) None
          (snd (login demo_lib demo_cfg 1000 0 ''s'' (demo_dto (Some ''ABCD1234'')) None
                  (demo_world\<lparr>twoFactorAuths := [demo_totp_dup]\<rparr>))))
     = Inr (LoginOk alice (generateTokens demo_lib demo_cfg 2000 alice))"
proof -
  let ?w = "demo_world\<lparr>twoFactorAuths := [demo_totp_dup]\<rparr>"
  let ?dto = "demo_dto (Some ''ABCD1234'')"
  let ?t1 = "demo_totp\<lparr>recoveryCodes := Some [demo_hash ''ABCD1234'' ''r2'']\<rparr>"
  let ?t2 = "demo_totp\<lparr>recoveryCodes := Some []\<rparr>"
  let ?w1 = "snd (login demo_lib demo_cfg 1000 0 ''s'' ?dto None ?w)"
  note facts = demo_login_facts [of demo_totp_dup "Some ''ABCD1234''"]
  have user: "findUserByIdentifier ?w (dto_identifier ?dto) = Some alice" using facts by simp
  have account: "findAccount ?w (user_id alice) = Some demo_account" using facts by simp
  have pw: "argon2_verify demo_lib (passwordHash demo_account) (dto_password ?dto)"
    using facts by simp
  have token: "twoFactorToken ?dto = Some ''ABCD1234'' \<and> ''ABCD1234'' \<noteq> []"
    using facts by simp
  have en: "enabledFactor ?w (user_id alice) TOTP = Some demo_totp_dup"
    by (simp add: enabledFactor_def demo_totp_dup_def demo_totp_def alice_def)
  have vt: "verifyTOTP demo_lib demo_cfg 1000 (user_id alice) ''ABCD1234'' ?w = Inr False"
    using demo_decrypt demo_no_totp_match
    by (simp add: verifyTOTP_def findTwoFactor_def demo_totp_dup_def demo_totp_def alice_def
          demo_cfg_def)
  have vr: "verifyRecoveryCode demo_lib (user_id alice) ''ABCD1234'' ?w
              = (True, ?w\<lparr>twoFactorAuths := [?t1]\<rparr>)"
    by (simp add: verifyRecoveryCode_def findTwoFactor_def demo_totp_dup_def demo_totp_def
          alice_def demo_lib_def demo_hash_def demo_hash_verify_def)
  note first = login_recovery_accepted [OF user account pw en token vt vr, of 0 "''s''" None]
  have res1: "fst (login demo_lib demo_cfg 1000 0 ''s'' ?dto None ?w)
     = Inr (LoginOk alice (generateTokens demo_lib demo_cfg 1000 alice))"
    by (simp add: first login_issue_result)
  have w1: "users ?w1 = [alice] \<and> twoFactorAuths ?w1 = [?t1]
            \<and> accounts ?w1 = [demo_account\<lparr>lastLoginAt := Some 1000\<rparr>]"
    unfolding first login_issue_result
    by (simp add: createSession_def Let_def logLoginAttempt_def audit_log_def
          demo_world_def demo_account_def)
  have user2: "findUserByIdentifier ?w1 (dto_identifier ?dto) = Some alice"
    using w1 by (simp add: findUserByIdentifier_def alice_def demo_dto_def)
  have account2: "findAccount ?w1 (user_id alice) = Some (demo_account\<lparr>lastLoginAt := Some 1000\<rparr>)"
    using w1 by (simp add: findAccount_def alice_def demo_account_def)
  have pw2: "argon2_verify demo_lib (passwordHash (demo_account\<lparr>lastLoginAt := Some 1000\<rparr>))
               (dto_password ?dto)"
    using pw by simp
  have en2: "enabledFactor ?w1 (user_id alice) TOTP = Some ?t1"
    using w1 by (simp add: enabledFactor_def demo_totp_def alice_def)
  have vt2: "verifyTOTP demo_lib demo_cfg 2000 (user_id alice) ''ABCD1234'' ?w1 = Inr False"
    using w1 demo_decrypt demo_no_totp_match
    by (simp add: verifyTOTP_def findTwoFactor_def demo_totp_def alice_def demo_cfg_def)
  have vr2: "verifyRecoveryCode demo_lib (user_id alice) ''ABCD1234'' ?w1
              = (True, ?w1\<lparr>twoFactorAuths := [?t2]\<rparr>)"
    using w1
    by (simp add: verifyRecoveryCode_def findTwoFactor_def demo_totp_def
          alice_def demo_lib_def demo_hash_def demo_hash_verify_def)
  note second = login_recovery_accepted [OF user2 account2 pw2 en2 token vt2 vr2, of 0 "''s''" None]
  have res2: "fst (login demo_lib demo_cfg 2000 0 ''s'' ?dto None ?w1)
     = Inr (LoginOk alice (generateTokens demo_lib demo_cfg 2000 alice))"
    by (simp add: second login_issue_result)
  from res1 res2 show ?thesis by simp
qed

text \<open>
  C2. The claim says that, with the TOTP factor enabled, a token that fails the TOTP and
  recovery-code checks is tried as an email code when an EMAIL factor is enabled too.
  The code puts the email check in the \<open>else if\<close> of \<open>if (totpAuth)\<close>: with both
  factors enabled it is never reached. For an identity with both factors enabled, a code
  that the TOTP check rejects and no recovery hash matches gives "Invalid two-factor
  code", and the store changes by the audit record only, also when the email check on the
  same store accepts that code (it would delete the challenge). The evaluation takes the
  challenge that \<open>login\<close> itself issues for such an identity (method "email") and
  submits its code.
\<close>

theorem login_totp_never_tries_email_otp:
  assumes user: "findUserByIdentifier s (dto_identifier dto) = Some user"
    and account: "findAccount s (user_id user) = Some account"
    and pw: "argon2_verify L (passwordHash account) (dto_password dto)"
    and totp: "enabledFactor s (user_id user) TOTP = Some t"
    and email: "enabledFactor s (user_id user) EMAIL = Some e"
    and token: "twoFactorToken dto = Some code \<and> code \<noteq> []"
    and vt: "verifyTOTP L cfg now (user_id user) code s = Inr False"
    and vr: "verifyRecoveryCode L (user_id user) code s = (False, s)"
    and otp: "fst (verifyOTP L cfg now (user_id user) code s) = Inr True"
  shows "login L cfg now r salt dto ip s =
           (Inl (UnauthorizedException ''Invalid two-factor code''),
            audit_log \<lparr>al_userId = user_id user, al_action = ''2fa_verification_failed'',
                        al_method = Some ''google'', al_success = False,
                        al_ipAddress = ip\<rparr> s)
         \<and> emailOTPs (snd (login L cfg now r salt dto ip s)) = emailOTPs s
         \<and> emailOTPs (snd (verifyOTP L cfg now (user_id user) code s)) \<noteq> emailOTPs s"
proof -
  have res: "login L cfg now r salt dto ip s =
           (Inl (UnauthorizedException ''Invalid two-factor code''),
            audit_log \<lparr>al_userId = user_id user, al_action = ''2fa_verification_failed'',
                        al_method = Some ''google'', al_success = False,
                        al_ipAddress = ip\<rparr> s)"
    by (rule login_totp_branch_rejected [OF user account pw totp token vt vr])
  have same: "emailOTPs (snd (login L cfg now r salt dto ip s)) = emailOTPs s"
    by (simp add: res audit_log_def)
  have changed: "emailOTPs (snd (verifyOTP L cfg now (user_id user) code s)) \<noteq> emailOTPs s"
  proof -
    have nl: "\<not> (case redis_get now s (''otp:attempts:'' @ user_id user) of
                     None \<Rightarrow> False
                   | Some a \<Rightarrow> a \<noteq> [] \<and> num_ge (parseInt a) (twoFactor_maxOTPAttempts cfg))"
      using otp by (auto simp: verifyOTP_def Let_def)
    then obtain ch where ch: "findLiveOTP now (user_id user) s = Some ch"
      using otp by (cases "findLiveOTP now (user_id user) s") (auto simp: verifyOTP_def Let_def)
    have ok: "argon2_verify L (otpHash ch) code"
      using otp nl ch by (auto simp: verifyOTP_def Let_def split: if_splits)
    have rows: "emailOTPs (snd (verifyOTP L cfg now (user_id user) code s)) =
              filter (\<lambda>row. otp_id row \<noteq> otp_id ch) (emailOTPs s)"
      by (simp add: verifyOTP_match [OF nl ch ok])
    have "ch \<in> set (emailOTPs s)" using findLiveOTP_Some [OF ch] by simp
    then have "length (filter (\<lambda>row. otp_id row \<noteq> otp_id ch) (emailOTPs s)) < length (emailOTPs s)"
      by (intro length_filter_less [of ch]) simp_all
    then show ?thesis using rows by auto
  qed
  from res same changed show ?thesis by simp
qed

theorem login_totp_never_tries_email_otp_witness:
  "fst (login demo_lib demo_cfg 1000 23456 ''s'' (demo_dto None) None demo_both)
     = Inr (Requires2FA ''email'')
   \<and> fst (verifyOTP demo_lib demo_cfg 2000 ''u1'' ''123456'' demo_challenged) = Inr True
   \<and> login demo_lib demo_cfg 2000 0 ''s'' (demo_dto (Some ''123456'')) None demo_challenged
     = (Inl (UnauthorizedException ''Invalid two-factor code''),
        audit_log \<lparr>al_userId = ''u1'', al_action = ''2fa_verification_failed'',
                    al_method = Some ''google'', al_success = False,
                    al_ipAddress = None\<rparr> demo_challenged)"
proof -
  let ?dto = "demo_dto (Some ''123456'')"
  note rows = demo_challenged_rows
  have user: "findUserByIdentifier demo_challenged (dto_identifier ?dto) = Some alice"
    using rows by (simp add: findUserByIdentifier_def alice_def demo_dto_def)
  have account: "findAccount demo_challenged (user_id alice) = Some demo_account"
    using rows by (simp add: findAccount_def alice_def demo_account_def)
  have pw: "argon2_verify demo_lib (passwordHash demo_account) (dto_password ?dto)"
    using demo_login_facts [of demo_totp "Some ''123456''"] by simp
  have totp: "enabledFactor demo_challenged (user_id alice) TOTP = Some demo_totp"
    using rows by (simp add: enabledFactor_def demo_totp_def demo_email_def alice_def)
  have email: "enabledFactor demo_challenged (user_id alice) EMAIL = Some demo_email"
    using rows by (simp add: enabledFactor_def demo_totp_def demo_email_def alice_def)
  have token: "twoFactorToken ?dto = Some ''123456'' \<and> ''123456'' \<noteq> []"
    by (simp add: demo_dto_def)
  have nomatch: "\<not> totp_verify demo_lib demo_secret ''123456'' 2000"
    by (simp add: demo_lib_def demo_totp_verify_def demo_code_def demo_secret_def num_eval)
  have vt: "verifyTOTP demo_lib demo_cfg 2000 (user_id alice) ''123456'' demo_challenged = Inr False"
    using rows demo_decrypt nomatch
    by (simp add: verifyTOTP_def findTwoFactor_def demo_totp_def alice_def demo_cfg_def)
  have vr: "verifyRecoveryCode demo_lib (user_id alice) ''123456'' demo_challenged
              = (False, demo_challenged)"
    using rows
    by (simp add: verifyRecoveryCode_def findTwoFactor_def demo_totp_def alice_def
          demo_lib_def demo_hash_def demo_hash_verify_def)
  have otp: "fst (verifyOTP demo_lib demo_cfg 2000 (user_id alice) ''123456'' demo_challenged)
               = Inr True"
    using rows
    by (simp add: verifyOTP_def redis_get_def findLiveOTP_def Let_def
          alice_def demo_lib_def demo_hash_def demo_hash_verify_def)
  have first: "fst (login demo_lib demo_cfg 1000 23456 ''s'' (demo_dto None) None demo_both)
     = Inr (Requires2FA ''email'')"
    by (simp add: demo_challenge_issued)
  show ?thesis
    using login_totp_never_tries_email_otp [OF user account pw totp email token vt vr otp,
        of 0 "''s''" None] first otp
    by (simp add: alice_def)
qed

text \<open>
  C1. The claim says that after five failed logins for an identifier a further login
  fails with the lockout error whatever the password. \<open>AuthService.login\<close> does not
  call the lockout service: \<open>recordFailedAttempt\<close> and \<open>checkLockout\<close> have no caller.
  Evaluated: five logins with a wrong password for \<open>a@x.com\<close> append five failed attempt
  records and leave the cache empty, and the sixth login, with the correct password,
  returns the user with a token pair. The lockout service on its own does what the claim
  describes: after five recorded failures \<open>checkLockout\<close> fails with fifteen minutes
  left. A login on the store with that lock flag set succeeds all the same.
\<close>

theorem login_after_five_failures:
  "map la_success (loginAttempts (demo_failed 5)) = replicate 5 False
   \<and> redis (demo_failed 5) = Map.empty
   \<and> fst (login demo_lib demo_cfg 6000 0 ''s'' (demo_dto None) (Some ''10.0.0.1'') (demo_failed 5))
       = Inr (LoginOk alice (generateTokens demo_lib demo_cfg 6000 alice))
   \<and> checkLockout 6000 ''a@x.com'' (demo_recorded 5)
       = Inl (Error ''Account is temporarily locked. Try again in 15 minutes.'')
   \<and> fst (login demo_lib demo_cfg 6000 0 ''s'' (demo_dto None) (Some ''10.0.0.1'') (demo_recorded 5))
       = Inr (LoginOk alice (generateTokens demo_lib demo_cfg 6000 alice))"
proof -
  note f = demo_failed_rows [of 5]
  have pw: "argon2_verify demo_lib (passwordHash demo_account) (dto_password (demo_dto None))"
    using demo_login_facts [of demo_totp None] by simp
  have user: "findUserByIdentifier (demo_failed 5) (dto_identifier (demo_dto None)) = Some alice"
    using f by (simp add: findUserByIdentifier_def alice_def demo_dto_def)
  have account: "findAccount (demo_failed 5) (user_id alice) = Some demo_account"
    using f by (simp add: findAccount_def alice_def demo_account_def)
  have none: "enabledFactor (demo_failed 5) (user_id alice) TOTP = None
              \<and> enabledFactor (demo_failed 5) (user_id alice) EMAIL = None"
    using f by (simp add: enabledFactor_def)
  have a: "fst (login demo_lib demo_cfg 6000 0 ''s'' (demo_dto None) (Some ''10.0.0.1'') (demo_failed 5))
       = Inr (LoginOk alice (generateTokens demo_lib demo_cfg 6000 alice))"
    by (simp add: login_without_second_factor [OF user account pw none] login_issue_result)
  note g = demo_recorded_rows [of 5]
  have user': "findUserByIdentifier (demo_recorded 5) (dto_identifier (demo_dto None)) = Some alice"
    using g by (simp add: findUserByIdentifier_def alice_def demo_dto_def)
  have account': "findAccount (demo_recorded 5) (user_id alice) = Some demo_account"
    using g by (simp add: findAccount_def alice_def demo_account_def)
  have none': "enabledFactor (demo_recorded 5) (user_id alice) TOTP = None
              \<and> enabledFactor (demo_recorded 5) (user_id alice) EMAIL = None"
    using g by (simp add: enabledFactor_def)
  have b: "fst (login demo_lib demo_cfg 6000 0 ''s'' (demo_dto None) (Some ''10.0.0.1'') (demo_recorded 5))
       = Inr (LoginOk alice (generateTokens demo_lib demo_cfg 6000 alice))"
    by (simp add: login_without_second_factor [OF user' account' pw none'] login_issue_result)
  have c: "checkLockout 6000 ''a@x.com'' (demo_recorded 5)
       = Inl (Error ''Account is temporarily locked. Try again in 15 minutes.'')"
    by (simp add: checkLockout_def redis_get_def redis_ttl_def demo_recorded_5 truthy_def
          Let_def num_eval)
  from f a b c show ?thesis by simp
qed

end
